theory Spec2Isabelle
  imports Main "HOL-Library.AList"
begin

section \<open>JavaScript values the dispatcher inspects\<close>

text \<open>
  The development embeds the variants of \<open>fetch\<close> found in the repository
  (\<open>src/unnamed/part_000\<close>, \<open>src/unnamed/part_001\<close> and the two documents of
  \<open>src/src/shared/net.ts\<close>) together with \<open>mockFetchForTesting\<close>.

  A property of a JavaScript object is absent, present with the value \<open>undefined\<close>, or
  present with a value. \<open>'k' in obj\<close> and object spread see the difference between the
  first two; reading \<open>obj.k\<close> does not.
\<close>

datatype 'a field = Missing | Undefined | Val 'a

fun has_key :: "'a field \<Rightarrow> bool" where
  "has_key Missing = False"
| "has_key Undefined = True"
| "has_key (Val v) = True"

fun read :: "'a field \<Rightarrow> 'a option" where
  "read Missing = None"
| "read Undefined = None"
| "read (Val v) = Some v"

fun as_field :: "'a option \<Rightarrow> 'a field" where
  "as_field None = Undefined"
| "as_field (Some v) = Val v"

text \<open>
  A thrown value: its \<open>message\<close>, and what the safety net observes of its \<open>cause\<close>.
  \<open>cause = None\<close> is a falsy or absent cause; \<open>Some (Inr s)\<close> a cause that
  \<open>JSON.stringify\<close> turns into \<open>s\<close>; \<open>Some (Inl e)\<close> a cause on which
  \<open>JSON.stringify\<close> throws \<open>e\<close> (a reference cycle, a BigInt).
\<close>

datatype exn = Exn (message: string) (cause: "(exn + string) option")

definition TypeError :: "string \<Rightarrow> exn" where
  "TypeError m = Exn m None"

definition Error :: "string \<Rightarrow> exn" where
  "Error m = Exn m None"

text \<open>
  A body value that is not a string is an object, represented by what the code observes of it:
  \<^item> \<open>isBuffer\<close>: \<open>Buffer.isBuffer(o)\<close>;
  \<^item> \<open>isUint8Array\<close>: \<open>o instanceof Uint8Array\<close>;
  \<^item> \<open>text_fn\<close>: \<open>None\<close> when \<open>typeof o.text\<close> is not \<open>'function'\<close>, otherwise
    the outcome of \<open>await o.text()\<close>;
  \<^item> \<open>JSON_stringify\<close>: \<open>JSON.stringify(o)\<close> throws (\<open>Inl\<close>), returns
    \<open>undefined\<close> (\<open>Inr None\<close>) or returns a text;
  \<^item> \<open>String_of\<close>: \<open>String(o)\<close>, which throws or returns a string;
  \<^item> \<open>Response_text\<close>: the outcome of \<open>await new Response(o).text()\<close>.
  Bodies are typed \<open>BodyInit | null\<close>: \<open>null\<close>, a string or an object.
\<close>

record jsobject =
  isBuffer :: bool
  isUint8Array :: bool
  text_fn :: "(exn + string) option"
  JSON_stringify :: "exn + string option"
  String_of :: "exn + string"
  Response_text :: "exn + string"

datatype body = BNull | BStr string | BObj jsobject

fun truthy :: "body option \<Rightarrow> bool" where
  "truthy None = False"
| "truthy (Some BNull) = False"
| "truthy (Some (BStr s)) = (s \<noteq> [])"
| "truthy (Some (BObj ob)) = True"

text \<open>
  A header collection is a \<open>Headers\<close> instance (it has an \<open>entries\<close> function) or a
  plain object with own enumerable string properties. Arrays of pairs are outside the model.
\<close>

datatype headers = HeadersObject "(string \<times> string) list" | PlainObject "(string \<times> string) list"

type_synonym signal = nat

datatype dispatcher = localAgent | proxyAgent | otherDispatcher nat

text \<open>
  The options bag: the caller's \<open>init\<close>, and the object handed to \<open>undiciFetch\<close>.
  \<open>meth\<close> is the property \<open>method\<close>; \<open>extras\<close> are the other own properties.
\<close>

record options =
  meth :: "string field"
  headers :: "headers field"
  body :: "body field"
  signal :: "signal field"
  duplex :: "string field"
  dispatcher :: "dispatcher field"
  extras :: "(string \<times> string) list"

definition empty_options :: options where
  "empty_options = \<lparr>meth = Missing, headers = Missing, body = Missing, signal = Missing,
     duplex = Missing, dispatcher = Missing, extras = []\<rparr>"

text \<open>A request-like input object: the properties the code reads from it.\<close>

record request_like =
  in_url :: "string field"
  in_meth :: "string field"
  in_headers :: "headers field"
  in_body :: "body field"
  in_signal :: "signal field"

text \<open>
  The first argument: a string, a \<open>URL\<close> instance (its \<open>href\<close>), another non-null
  object, or anything else (a number, \<open>null\<close>, \<open>undefined\<close>).
\<close>

datatype input = IString string | IURL string | IObject request_like | IOther

section \<open>String operations\<close>

fun startsWith :: "string \<Rightarrow> string \<Rightarrow> bool" where
  "startsWith s [] = True"
| "startsWith [] (p # ps) = False"
| "startsWith (c # cs) (p # ps) = (c = p \<and> startsWith cs ps)"

text \<open>\<open>s.includes(p)\<close>\<close>

fun str_includes :: "string \<Rightarrow> string \<Rightarrow> bool" where
  "str_includes [] p = (p = [])"
| "str_includes (c # cs) p = (startsWith (c # cs) p \<or> str_includes cs p)"

text \<open>\<open>s.replace(p, r)\<close> with a string pattern: only the first occurrence is replaced.\<close>

fun str_replace :: "string \<Rightarrow> string \<Rightarrow> string \<Rightarrow> string" where
  "str_replace [] p r = (if p = [] then r else [])"
| "str_replace (c # cs) p r =
     (if startsWith (c # cs) p then r @ drop (length p) (c # cs) else c # str_replace cs p r)"

text \<open>\<open>s.replace(/\\/g, '/')\<close>: every backslash becomes a slash.\<close>

definition replace_backslashes :: "string \<Rightarrow> string" where
  "replace_backslashes s = map (\<lambda>c. if c = CHR 0x5C then CHR ''/'' else c) s"

text \<open>\<open>s.toUpperCase()\<close> on ASCII text (method names).\<close>

definition upper_char :: "char \<Rightarrow> char" where
  "upper_char c =
     (case map_of (zip ''abcdefghijklmnopqrstuvwxyz'' ''ABCDEFGHIJKLMNOPQRSTUVWXYZ'') c of
        None \<Rightarrow> c | Some u \<Rightarrow> u)"

definition toUpperCase :: "string \<Rightarrow> string" where
  "toUpperCase s = map upper_char s"

section \<open>The platform and the calls a dispatch makes\<close>

text \<open>
  What the code calls and does not define: \<open>new URL(url).hostname\<close> (\<open>None\<close> when the
  constructor throws), \<open>undiciFetch\<close> and the baseline \<open>globalThis.fetch\<close> captured as
  \<open>baseFetch\<close>. A rejected promise and a thrown exception are both \<open>Inl\<close>.
\<close>

record 'r platform =
  URL_hostname :: "string \<Rightarrow> string option"
  undiciFetch :: "string \<Rightarrow> options \<Rightarrow> exn + 'r"
  baseFetch :: "input \<Rightarrow> options option \<Rightarrow> exn + 'r"

text \<open>The calls to the two request functions, in the order they are made.\<close>

datatype call = UndiciFetch string options | BaseFetch input "options option"

text \<open>\<open>typeof input === 'object' && input !== null && 'method' in input\<close>\<close>

definition has_method :: "input \<Rightarrow> bool" where
  "has_method inp = (case inp of IObject r \<Rightarrow> has_key (in_meth r) | _ \<Rightarrow> False)"

text \<open>
  A string is truthy when it is not empty; \<open>undefined\<close> is falsy. \<open>str_or a d\<close> is
  \<open>a || d\<close>, and also \<open>if (a) x = a\<close> for a variable \<open>x\<close> holding \<open>d\<close>.
\<close>

fun truthy_str :: "string option \<Rightarrow> bool" where
  "truthy_str None = False"
| "truthy_str (Some s) = (s \<noteq> [])"

fun str_or :: "string option \<Rightarrow> string \<Rightarrow> string" where
  "str_or None d = d"
| "str_or (Some s) d = (if s = [] then d else s)"

section \<open>The range-based variant (\<open>src/unnamed/part_000\<close>)\<close>

subsection \<open>1. Resolve URL\<close>

text \<open>
  \<open>url\<close> starts as \<open>''\<close>; an object with a \<open>url\<close> key gives \<open>input.url\<close>, which is
  \<open>undefined\<close> (\<open>None\<close>) when the property holds no value.
\<close>

definition resolve_url_000 :: "input \<Rightarrow> string option" where
  "resolve_url_000 inp =
     (case inp of
        IString s \<Rightarrow> Some s
      | IURL href \<Rightarrow> Some href
      | IObject r \<Rightarrow> (if has_key (in_url r) then read (in_url r) else Some [])
      | IOther \<Rightarrow> Some [])"

text \<open>The two "typo fixes": backslashes, then \<open>localhost\<close>.\<close>

definition typo_fixes :: "string \<Rightarrow> string" where
  "typo_fixes url =
     (let url1 = (if str_includes url [CHR 0x5C] then replace_backslashes url else url)
      in if str_includes url1 ''localhost''
         then str_replace url1 ''localhost'' ''127.0.0.1'' else url1)"

subsection \<open>2. Select agent\<close>

definition hostname_of :: "'r platform \<Rightarrow> string \<Rightarrow> string" where
  "hostname_of env url = (case URL_hostname env url of None \<Rightarrow> ''localhost'' | Some h \<Rightarrow> h)"

text \<open>
  The regular expression
  \<^verbatim>\<open>/^(127\.|192\.168\.|10\.|172\.(1[6-9]|2[0-9]|3[0-1])\.)/\<close>: anchored at the start
  only.
\<close>

definition isPrivate :: "string \<Rightarrow> bool" where
  "isPrivate hostname =
     (startsWith hostname ''127.'' \<or> startsWith hostname ''192.168.'' \<or>
      startsWith hostname ''10.'' \<or>
      (startsWith hostname ''172.'' \<and>
       (case drop 4 hostname of
          a # b # c # rest \<Rightarrow>
            ((a = CHR ''1'' \<and> b \<in> set ''6789'') \<or>
             (a = CHR ''2'' \<and> b \<in> set ''0123456789'') \<or>
             (a = CHR ''3'' \<and> b \<in> set ''01'')) \<and> c = CHR ''.''
        | _ \<Rightarrow> False)))"

definition isLocal_000 :: "string \<Rightarrow> bool" where
  "isLocal_000 hostname =
     (isPrivate hostname \<or> hostname = ''localhost'' \<or> hostname = ''0.0.0.0'')"

definition selectedDispatcher :: "bool \<Rightarrow> dispatcher" where
  "selectedDispatcher isLocal = (if isLocal then localAgent else proxyAgent)"

subsection \<open>3. Extract data\<close>

text \<open>
  The method and raw body after the request-like object, the explicit options, the
  upper-casing and the GET/HEAD rule. \<open>input.method || 'GET'\<close> and \<open>if (init.method)\<close>,
  \<open>if (init.body)\<close> test truthiness.
\<close>

definition extract_000 :: "input \<Rightarrow> options option \<Rightarrow> string \<times> body option" where
  "extract_000 inp init =
     (let method0 = (case inp of
                       IObject r \<Rightarrow>
                         (if has_key (in_meth r) then str_or (read (in_meth r)) ''GET''
                          else ''GET'')
                     | _ \<Rightarrow> ''GET'');
          rawBody0 = (case inp of
                        IObject r \<Rightarrow> (if has_key (in_meth r) then read (in_body r) else None)
                      | _ \<Rightarrow> None);
          method1 = (case init of
                       None \<Rightarrow> method0
                     | Some i \<Rightarrow> str_or (read (meth i)) method0);
          rawBody1 = (case init of
                        None \<Rightarrow> rawBody0
                      | Some i \<Rightarrow> (if truthy (read (body i)) then read (body i) else rawBody0));
          method2 = toUpperCase method1;
          rawBody2 = (if method2 = ''GET'' \<or> method2 = ''HEAD'' then None else rawBody1)
      in (method2, rawBody2))"

subsection \<open>4. Prepare body\<close>

text \<open>
  \<open>finalBody\<close> after the coercion: a string is kept, an object with a \<open>text\<close> function is
  drained (a rejection is thrown on), any other object is serialised, and \<open>String\<close> is the
  last resort when \<open>JSON.stringify\<close> throws. A falsy body is left as it is.
\<close>

definition prepare_body_000 :: "body option \<Rightarrow> exn + body option" where
  "prepare_body_000 rawBody =
     (if truthy rawBody then
        (case rawBody of
           Some (BObj ob) \<Rightarrow>
             (case text_fn ob of
                Some drained \<Rightarrow> (case drained of Inl e \<Rightarrow> Inl e | Inr s \<Rightarrow> Inr (Some (BStr s)))
              | None \<Rightarrow>
                  (case JSON_stringify ob of
                     Inr j \<Rightarrow> Inr (map_option BStr j)
                   | Inl e \<Rightarrow>
                       (case String_of ob of Inl e' \<Rightarrow> Inl e' | Inr s \<Rightarrow> Inr (Some (BStr s)))))
         | _ \<Rightarrow> Inr rawBody)
      else Inr rawBody)"

subsection \<open>5. Reconstruct headers\<close>

definition cleanHeaders_000 :: "bool \<Rightarrow> string \<Rightarrow> (string \<times> string) list" where
  "cleanHeaders_000 isLocal hostname =
     (let cleanHeaders = [(''Content-Type'', ''application/json''), (''Connection'', ''keep-alive'')]
      in if isLocal then AList.update ''Host'' hostname cleanHeaders else cleanHeaders)"

subsection \<open>6. Send, and the safety net\<close>

text \<open>
  Everything inside \<open>try\<close> up to the call of \<open>undiciFetch\<close>: the URL and the options
  object the call receives, or the exception thrown before it.
\<close>

definition primary_part_000 ::
  "'r platform \<Rightarrow> input \<Rightarrow> options option \<Rightarrow> exn + string \<times> options" where
  "primary_part_000 env inp init =
     (case resolve_url_000 inp of
        None \<Rightarrow> Inl (TypeError ''url.includes: url is undefined'')
      | Some url0 \<Rightarrow>
          (let url = typo_fixes url0;
               hostname = hostname_of env url;
               isLocal = isLocal_000 hostname;
               (method, rawBody) = extract_000 inp init
           in case prepare_body_000 rawBody of
                Inl e \<Rightarrow> Inl e
              | Inr finalBody \<Rightarrow>
                  Inr (url,
                       \<lparr>meth = Val method,
                        headers = Val (PlainObject (cleanHeaders_000 isLocal hostname)),
                        body = (if truthy finalBody then as_field finalBody else Missing),
                        signal = Missing, duplex = Missing,
                        dispatcher = Val (selectedDispatcher isLocal), extras = []\<rparr>)))"

text \<open>
  The \<open>catch\<close> block of part_000 and part_001:
  \<open>const cause = err.cause ? JSON.stringify(err.cause) : "Unknown"\<close>, a warning, then
  \<open>return baseFetch(input, init)\<close>. An exception of \<open>JSON.stringify\<close> leaves the block
  before the fallback is called.
\<close>

definition cause_text :: "exn \<Rightarrow> exn + string" where
  "cause_text err = (case cause err of None \<Rightarrow> Inr ''Unknown'' | Some r \<Rightarrow> r)"

definition safety_net_stringify ::
  "'r platform \<Rightarrow> call list \<Rightarrow> exn \<Rightarrow> input \<Rightarrow> options option \<Rightarrow> call list \<times> (exn + 'r)" where
  "safety_net_stringify env calls err inp init =
     (case cause_text err of
        Inl e \<Rightarrow> (calls, Inl e)
      | Inr c \<Rightarrow> (calls @ [BaseFetch inp init], baseFetch env inp init))"

definition fetch_part_000 ::
  "'r platform \<Rightarrow> input \<Rightarrow> options option \<Rightarrow> call list \<times> (exn + 'r)" where
  "fetch_part_000 env inp init =
     (case primary_part_000 env inp init of
        Inl err \<Rightarrow> safety_net_stringify env [] err inp init
      | Inr (url, fetchOptions) \<Rightarrow>
          (case undiciFetch env url fetchOptions of
             Inr response \<Rightarrow> ([UndiciFetch url fetchOptions], Inr response)
           | Inl err \<Rightarrow> safety_net_stringify env [UndiciFetch url fetchOptions] err inp init))"

section \<open>The buffering variant (\<open>src/unnamed/part_001\<close>)\<close>

text \<open>
  URL resolution of part_001 and of the first document of net.ts: an input that is no
  string, no \<open>URL\<close> and has no \<open>url\<close> key throws \<open>new Error(msg)\<close>; an
  \<open>undefined\<close> URL throws at \<open>url.includes\<close>.
\<close>

definition resolve_url_throwing :: "string \<Rightarrow> input \<Rightarrow> exn + string" where
  "resolve_url_throwing msg inp =
     (case inp of
        IString s \<Rightarrow> Inr s
      | IURL href \<Rightarrow> Inr href
      | IObject r \<Rightarrow>
          (if has_key (in_url r)
           then (case read (in_url r) of
                   None \<Rightarrow> Inl (TypeError ''url.includes: url is undefined'')
                 | Some u \<Rightarrow> Inr u)
           else Inl (Error msg))
      | IOther \<Rightarrow> Inl (Error msg))"

definition force_ipv4 :: "string \<Rightarrow> string" where
  "force_ipv4 url =
     (if str_includes url ''localhost'' then str_replace url ''localhost'' ''127.0.0.1'' else url)"

text \<open>\<open>url.includes('127.0.0.1') || url.includes('0.0.0.0')\<close>, on the whole URL.\<close>

definition isLocal_substring :: "string \<Rightarrow> bool" where
  "isLocal_substring url = (str_includes url ''127.0.0.1'' \<or> str_includes url ''0.0.0.0'')"

text \<open>
  Method, headers and raw body. \<open>method = input.method\<close> has no default here, so the
  method may be \<open>undefined\<close>; \<open>headers\<close> starts as \<open>{}\<close>.
\<close>

definition extract_001 ::
  "input \<Rightarrow> options option \<Rightarrow> string option \<times> headers option \<times> body option" where
  "extract_001 inp init =
     (let fromInput = (case inp of
                         IObject r \<Rightarrow>
                           (if has_key (in_meth r)
                            then (read (in_meth r), read (in_headers r), read (in_body r))
                            else (Some ''GET'', Some (PlainObject []), None))
                       | _ \<Rightarrow> (Some ''GET'', Some (PlainObject []), None))
      in case init of
           None \<Rightarrow> fromInput
         | Some i \<Rightarrow>
             (case fromInput of
                (method0, headers0, rawBody0) \<Rightarrow>
                  ((if truthy_str (read (meth i)) then read (meth i) else method0),
                   (case read (headers i) of None \<Rightarrow> headers0 | Some h \<Rightarrow> Some h),
                   (if truthy (read (body i)) then read (body i) else rawBody0))))"

text \<open>
  Buffering: a truthy body that is neither a string nor a \<open>Buffer\<close> is read through
  \<open>new Response(rawBody).text()\<close>; \<open>JSON.stringify\<close> runs only when that throws, and
  \<open>String\<close> only when \<open>JSON.stringify\<close> throws as well.
\<close>

definition buffer_body_001 :: "body option \<Rightarrow> exn + body option" where
  "buffer_body_001 rawBody =
     (case rawBody of
        Some (BObj ob) \<Rightarrow>
          (if isBuffer ob then Inr rawBody
           else (case Response_text ob of
                   Inr s \<Rightarrow> Inr (Some (BStr s))
                 | Inl e \<Rightarrow>
                     (case JSON_stringify ob of
                        Inr j \<Rightarrow> Inr (map_option BStr j)
                      | Inl e2 \<Rightarrow>
                          (case String_of ob of
                             Inl e3 \<Rightarrow> Inl e3
                           | Inr s \<Rightarrow> Inr (Some (BStr s))))))
      | _ \<Rightarrow> Inr rawBody)"

text \<open>\<open>obj[key] = value\<close> for each entry in turn.\<close>

definition assign_all :: "(string \<times> string) list \<Rightarrow> (string \<times> string) list \<Rightarrow> (string \<times> string) list" where
  "assign_all entries obj = fold (\<lambda>(k, v) acc. AList.update k v acc) entries obj"

definition cleanHeaders_001 :: "headers option \<Rightarrow> bool \<Rightarrow> (string \<times> string) list" where
  "cleanHeaders_001 hs isLocal =
     (let cleanHeaders = (case hs of
                            None \<Rightarrow> []
                          | Some (HeadersObject es) \<Rightarrow> assign_all es []
                          | Some (PlainObject kvs) \<Rightarrow> assign_all kvs [])
      in if isLocal then AList.update ''Host'' ''127.0.0.1'' cleanHeaders else cleanHeaders)"

definition primary_part_001 :: "input \<Rightarrow> options option \<Rightarrow> exn + string \<times> options" where
  "primary_part_001 inp init =
     (case resolve_url_throwing ''Cannot parse URL'' inp of
        Inl e \<Rightarrow> Inl e
      | Inr url0 \<Rightarrow>
          (let url = force_ipv4 url0;
               isLocal = isLocal_substring url
           in case extract_001 inp init of
                (method, hdrs, rawBody) \<Rightarrow>
                  (case buffer_body_001 rawBody of
                     Inl e \<Rightarrow> Inl e
                   | Inr finalBody \<Rightarrow>
                       (case method of
                          None \<Rightarrow> Inl (TypeError ''method.toUpperCase: method is undefined'')
                        | Some m \<Rightarrow>
                            Inr (url,
                                 \<lparr>meth = Val (toUpperCase m),
                                  headers = Val (PlainObject (cleanHeaders_001 hdrs isLocal)),
                                  body = as_field finalBody,
                                  signal = Missing, duplex = Missing,
                                  dispatcher = Val (selectedDispatcher isLocal),
                                  extras = []\<rparr>)))))"

definition fetch_part_001 ::
  "'r platform \<Rightarrow> input \<Rightarrow> options option \<Rightarrow> call list \<times> (exn + 'r)" where
  "fetch_part_001 env inp init =
     (case primary_part_001 inp init of
        Inl err \<Rightarrow> safety_net_stringify env [] err inp init
      | Inr (url, fetchOptions) \<Rightarrow>
          (case undiciFetch env url fetchOptions of
             Inr response \<Rightarrow> ([UndiciFetch url fetchOptions], Inr response)
           | Inl err \<Rightarrow> safety_net_stringify env [UndiciFetch url fetchOptions] err inp init))"

section \<open>The spread-merge variant (\<open>src/src/shared/net.ts\<close>, first document)\<close>

text \<open>
  One key of \<open>{method: input.method, ..., ...options}\<close>: the literal always creates the
  key, with the value read from the input; a key that \<open>options\<close> owns overrides it, even
  when its value is \<open>undefined\<close>.
\<close>

definition spread_over :: "'a field \<Rightarrow> 'a field \<Rightarrow> 'a field" where
  "spread_over from_input from_options =
     (if has_key from_options then from_options else as_field (read from_input))"

definition merge_options_net :: "input \<Rightarrow> options option \<Rightarrow> options" where
  "merge_options_net inp init =
     (let options = (case init of None \<Rightarrow> empty_options | Some i \<Rightarrow> i)
      in case inp of
           IObject r \<Rightarrow>
             (if has_key (in_meth r)
              then options\<lparr>meth := spread_over (in_meth r) (meth options),
                           headers := spread_over (in_headers r) (headers options),
                           body := spread_over (in_body r) (body options),
                           signal := spread_over (in_signal r) (signal options)\<rparr>
              else options)
         | _ \<Rightarrow> options)"

text \<open>"Clean Headers": a \<open>Headers\<close> instance is replaced by a plain object, in place.\<close>

definition clean_headers_net :: "options \<Rightarrow> options" where
  "clean_headers_net opts =
     (case read (headers opts) of
        Some (HeadersObject es) \<Rightarrow> opts\<lparr>headers := Val (PlainObject (assign_all es []))\<rparr>
      | _ \<Rightarrow> opts)"

text \<open>"Handle Duplex": \<open>options.duplex = 'half'\<close>, in place.\<close>

definition handle_duplex_net :: "options \<Rightarrow> options" where
  "handle_duplex_net opts =
     (if truthy (read (body opts)) then
        (let isStringOrBuffer = (case read (body opts) of
                                   Some (BStr s) \<Rightarrow> True
                                 | Some (BObj ob) \<Rightarrow> isUint8Array ob \<or> isBuffer ob
                                 | _ \<Rightarrow> False)
         in if \<not> isStringOrBuffer \<and> \<not> truthy_str (read (duplex opts))
            then opts\<lparr>duplex := Val ''half''\<rparr> else opts)
      else opts)"

text \<open>The \<open>options\<close> object when \<open>undiciFetch\<close> is called.\<close>

definition options_net :: "input \<Rightarrow> options option \<Rightarrow> options" where
  "options_net inp init = handle_duplex_net (clean_headers_net (merge_options_net inp init))"

text \<open>
  \<open>let options = init || {}\<close> makes \<open>options\<close> the caller's \<open>init\<close> object itself unless
  the input carries a \<open>method\<close> key (then \<open>options\<close> is a fresh object). The two in-place
  assignments above therefore change \<open>init\<close>: this is the value of \<open>init\<close> once they ran.
\<close>

definition init_after_net :: "input \<Rightarrow> options option \<Rightarrow> options option" where
  "init_after_net inp init =
     (case init of
        None \<Rightarrow> None
      | Some i \<Rightarrow> (if has_method inp then Some i else Some (options_net inp init)))"

definition primary_net :: "input \<Rightarrow> options option \<Rightarrow> exn + string \<times> options" where
  "primary_net inp init =
     (case resolve_url_throwing ''Cannot parse URL for undici'' inp of
        Inl e \<Rightarrow> Inl e
      | Inr url0 \<Rightarrow>
          (let url = force_ipv4 url0;
               isLocal = isLocal_substring url
           in Inr (url, (options_net inp init)\<lparr>dispatcher := Val (selectedDispatcher isLocal)\<rparr>)))"

text \<open>
  The \<open>catch\<close> block only warns and returns \<open>baseFetch(input, init)\<close>. An exception of
  the URL resolution comes before the in-place assignments, one of \<open>undiciFetch\<close> after.
\<close>

definition fetch_net ::
  "'r platform \<Rightarrow> input \<Rightarrow> options option \<Rightarrow> call list \<times> (exn + 'r)" where
  "fetch_net env inp init =
     (case primary_net inp init of
        Inl err \<Rightarrow> ([BaseFetch inp init], baseFetch env inp init)
      | Inr (url, fetchOptions) \<Rightarrow>
          (case undiciFetch env url fetchOptions of
             Inr response \<Rightarrow> ([UndiciFetch url fetchOptions], Inr response)
           | Inl err \<Rightarrow>
               ([UndiciFetch url fetchOptions, BaseFetch inp (init_after_net inp init)],
                baseFetch env inp (init_after_net inp init))))"

section \<open>The test seam\<close>

text \<open>
  How the identifier \<open>mockFetch\<close> resolves in a module. Only the second document of
  net.ts declares it (\<open>let mockFetch: typeof globalThis.fetch | undefined\<close>, line 321):
  there it is bound, to \<open>undefined\<close> (\<open>Bound None\<close>) or to a function. part_000,
  part_001 and the first document of net.ts use the identifier in \<open>mockFetchForTesting\<close>
  and declare it nowhere: it is unresolvable, and reading it throws a
  \<open>ReferenceError\<close>.
\<close>

datatype 'f binding = Unresolvable | Bound "'f option"

definition ReferenceError :: "string \<Rightarrow> exn" where
  "ReferenceError m = Exn m None"

text \<open>
  The module state. \<open>assigned\<close> is a ghost log: every value an assignment stored in
  \<open>mockFetch\<close>, oldest first.
\<close>

record 'f module_state =
  mockFetch :: "'f binding"
  assigned :: "'f option list"

text \<open>The state in which each module starts.\<close>

definition module_net_original :: "'f module_state" where
  "module_net_original = \<lparr>mockFetch = Bound None, assigned = []\<rparr>"

definition module_undeclared :: "'f module_state" where
  "module_undeclared = \<lparr>mockFetch = Unresolvable, assigned = []\<rparr>"

text \<open>
  \<open>mockFetch = v\<close>. In \<open>mockFetchForTesting\<close> every assignment comes after the read of
  its first statement, so it is only reached where the identifier resolves.
\<close>

definition assign_mockFetch :: "'f option \<Rightarrow> 'f module_state \<Rightarrow> 'f module_state" where
  "assign_mockFetch v s = s\<lparr>mockFetch := Bound v, assigned := assigned s @ [v]\<rparr>"

text \<open>
  The entry point of the second document of net.ts:
  \<open>(mockFetch || baseFetch)(input, init)\<close>. \<open>base\<close> is the function the module built
  before (\<open>undiciFetch\<close>, or the sanitising wrapper around it).
\<close>

definition fetch_net_original ::
  "(input \<Rightarrow> options option \<Rightarrow> call list \<times> (exn + 'r)) module_state \<Rightarrow>
   (input \<Rightarrow> options option \<Rightarrow> call list \<times> (exn + 'r)) \<Rightarrow>
   input \<Rightarrow> options option \<Rightarrow> call list \<times> (exn + 'r)" where
  "fetch_net_original s base inp init =
     (case mockFetch s of
        Unresolvable \<Rightarrow> ([], Inl (ReferenceError ''mockFetch is not defined''))
      | Bound None \<Rightarrow> base inp init
      | Bound (Some mock) \<Rightarrow> mock inp init)"

text \<open>
  A promise: how it settles, and the \<open>finally\<close> reactions registered on it, which run in
  order when it settles. \<open>promise_finally p h\<close> is \<open>p.finally(h)\<close> for a reaction \<open>h\<close>
  that does not throw; \<open>settle\<close> runs the reactions on the state of that moment.
\<close>

datatype ('s, 'v) promise = Promise (outcome: "exn + 'v") (reactions: "('s \<Rightarrow> 's) list")

definition promise_finally :: "('s, 'v) promise \<Rightarrow> ('s \<Rightarrow> 's) \<Rightarrow> ('s, 'v) promise" where
  "promise_finally p h = Promise (outcome p) (reactions p @ [h])"

definition settle :: "('s, 'v) promise \<Rightarrow> 's \<Rightarrow> (exn + 'v) \<times> 's" where
  "settle p s = (outcome p, fold (\<lambda>h t. h t) (reactions p) s)"

text \<open>What a callback returns: a promise (\<open>result instanceof Promise\<close>) or anything else.\<close>

datatype ('s, 'v) returned = Plain 'v | Promised "('s, 'v) promise"

text \<open>
  \<open>mockFetchForTesting(theFetch, callback)\<close>, the same text in all four documents. Its
  first statement, \<open>const originalMockFetch = mockFetch\<close>, reads the identifier: where it
  is unresolvable the function throws there, before any assignment and before the callback.
  Otherwise the callback runs on the module state and returns or throws; the \<open>finally\<close>
  block restores at once unless a promise was returned, in which case the restoration is a
  reaction on that promise.
\<close>

definition mockFetchForTesting ::
  "'f \<Rightarrow> ('f module_state \<Rightarrow> (exn + ('f module_state, 'v) returned) \<times> 'f module_state) \<Rightarrow>
   'f module_state \<Rightarrow> (exn + ('f module_state, 'v) returned) \<times> 'f module_state" where
  "mockFetchForTesting theFetch callback s =
     (case mockFetch s of
        Unresolvable \<Rightarrow> (Inl (ReferenceError ''mockFetch is not defined''), s)
      | Bound originalMockFetch \<Rightarrow>
          (let s1 = assign_mockFetch (Some theFetch) s
           in case callback s1 of
                (Inl e, s2) \<Rightarrow> (Inl e, assign_mockFetch originalMockFetch s2)
              | (Inr (Promised result), s2) \<Rightarrow>
                  (Inr (Promised (promise_finally result (assign_mockFetch originalMockFetch))),
                   s2)
              | (Inr (Plain result), s2) \<Rightarrow>
                  (Inr (Plain result), assign_mockFetch originalMockFetch s2)))"

section \<open>The classification rule in the specification's words\<close>

text \<open>
  "Local iff it is \<open>localhost\<close>, \<open>0.0.0.0\<close>, or an IPv4 literal in one of the ranges
  127.0.0.0/8, 10.0.0.0/8, 172.16.0.0/12, 192.168.0.0/16". An IPv4 literal is read as the
  URL parser prints it: four decimal octets without leading zeros, separated by dots.
\<close>

fun split_dots :: "string \<Rightarrow> string list" where
  "split_dots [] = [[]]"
| "split_dots (c # cs) =
     (if c = CHR ''.'' then [] # split_dots cs
      else (case split_dots cs of [] \<Rightarrow> [[c]] | x # xs \<Rightarrow> (c # x) # xs))"

definition digit_value :: "char \<Rightarrow> nat option" where
  "digit_value c = map_of (zip ''0123456789'' [0, 1, 2, 3, 4, 5, 6, 7, 8, 9]) c"

fun decimal_value :: "nat \<Rightarrow> string \<Rightarrow> nat option" where
  "decimal_value acc [] = Some acc"
| "decimal_value acc (c # cs) =
     (case digit_value c of None \<Rightarrow> None | Some d \<Rightarrow> decimal_value (10 * acc + d) cs)"

definition octet :: "string \<Rightarrow> nat option" where
  "octet s =
     (if s = [] \<or> 3 < length s \<or> (1 < length s \<and> startsWith s ''0'') then None
      else (case decimal_value 0 s of
              None \<Rightarrow> None
            | Some n \<Rightarrow> (if n \<le> 255 then Some n else None)))"

definition ipv4_literal :: "string \<Rightarrow> (nat \<times> nat \<times> nat \<times> nat) option" where
  "ipv4_literal hostname =
     (case map octet (split_dots hostname) of
        [Some a, Some b, Some c, Some d] \<Rightarrow> Some (a, b, c, d)
      | _ \<Rightarrow> None)"

definition spec_Local :: "string \<Rightarrow> bool" where
  "spec_Local hostname =
     (hostname = ''localhost'' \<or> hostname = ''0.0.0.0'' \<or>
      (case ipv4_literal hostname of
         None \<Rightarrow> False
       | Some (a, b, c, d) \<Rightarrow>
           a = 127 \<or> a = 10 \<or> (a = 172 \<and> 16 \<le> b \<and> b \<le> 31) \<or> (a = 192 \<and> b = 168)))"

section \<open>Concrete platforms and values for the examples\<close>

text \<open>
  A stand-in for \<open>new URL(url).hostname\<close> on plain \<open>http://host[:port]/path\<close> and
  \<open>https://...\<close> URLs; anything else does not parse.
\<close>

definition example_hostname :: "string \<Rightarrow> string option" where
  "example_hostname url =
     (if startsWith url ''http://''
      then Some (takeWhile (\<lambda>c. c \<notin> set ''/:?#'') (drop 7 url))
      else if startsWith url ''https://''
      then Some (takeWhile (\<lambda>c. c \<notin> set ''/:?#'') (drop 8 url))
      else None)"

text \<open>A platform whose two request functions settle the same way for every request.\<close>

definition example_platform :: "exn + string \<Rightarrow> exn + string \<Rightarrow> string platform" where
  "example_platform primary baseline =
     \<lparr>URL_hostname = example_hostname,
      undiciFetch = (\<lambda>url fetchOptions. primary),
      baseFetch = (\<lambda>inp init. baseline)\<rparr>"

text \<open>The object \<open>{a: 1}\<close>; its JSON text is \<open>{"a":1}\<close>.\<close>

definition json_a1 :: string where
  "json_a1 = ''{'' @ [CHR 0x22] @ ''a'' @ [CHR 0x22] @ '':1}''"

definition object_a1 :: jsobject where
  "object_a1 =
     \<lparr>isBuffer = False, isUint8Array = False, text_fn = None,
      JSON_stringify = Inr (Some json_a1),
      String_of = Inr ''[object Object]'',
      Response_text = Inr ''[object Object]''\<rparr>"

text \<open>An object that refers to itself: \<open>const o = {}; o.self = o\<close>.\<close>

definition circular_object :: jsobject where
  "circular_object =
     \<lparr>isBuffer = False, isUint8Array = False, text_fn = None,
      JSON_stringify = Inl (TypeError ''Converting circular structure to JSON''),
      String_of = Inr ''[object Object]'',
      Response_text = Inr ''[object Object]''\<rparr>"

text \<open>A \<open>Response\<close> whose body was already read: \<open>text()\<close> rejects.\<close>

definition used_response :: jsobject where
  "used_response =
     \<lparr>isBuffer = False, isUint8Array = False,
      text_fn = Some (Inl (TypeError ''Body is unusable'')),
      JSON_stringify = Inr (Some ''{}''),
      String_of = Inr ''[object Response]'',
      Response_text = Inl (TypeError ''Body is unusable'')\<rparr>"

text \<open>
  A stream that is already locked and carries a reference cycle: neither
  \<open>new Response(o)\<close> nor \<open>JSON.stringify(o)\<close> succeeds.
\<close>

definition locked_circular_stream :: jsobject where
  "locked_circular_stream =
     \<lparr>isBuffer = False, isUint8Array = False, text_fn = None,
      JSON_stringify = Inl (TypeError ''Converting circular structure to JSON''),
      String_of = Inr ''[object ReadableStream]'',
      Response_text = Inl (TypeError ''ReadableStream is locked'')\<rparr>"

text \<open>
  An object without a prototype that refers to itself
  (\<open>const o = Object.create(null); o.self = o\<close>): it has no \<open>toString\<close>, so
  \<open>String(o)\<close> throws as well.
\<close>

definition bare_circular_object :: jsobject where
  "bare_circular_object =
     \<lparr>isBuffer = False, isUint8Array = False, text_fn = None,
      JSON_stringify = Inl (TypeError ''Converting circular structure to JSON''),
      String_of = Inl (TypeError ''Cannot convert object to primitive value''),
      Response_text = Inl (TypeError ''Cannot convert object to primitive value'')\<rparr>"

text \<open>
  A transport failure whose cause cannot be serialised, for instance a TLS host mismatch:
  its cause carries the peer certificate chain, in which the root certificate is its own
  issuer. \<open>connection_refused\<close> is one whose cause serialises.
\<close>

definition tls_failure :: exn where
  "tls_failure =
     Exn ''fetch failed'' (Some (Inl (TypeError ''Converting circular structure to JSON'')))"

definition connection_refused :: exn where
  "connection_refused = Exn ''fetch failed'' (Some (Inr ''{}''))"

text \<open>Explicit options a caller may pass, and a request-like object.\<close>

definition caller_init :: options where
  "caller_init =
     \<lparr>meth = Val ''post'',
      headers = Val (PlainObject [(''Authorization'', ''Bearer token'')]),
      body = Val (BStr ''hello''), signal = Val 1, duplex = Missing, dispatcher = Missing,
      extras = []\<rparr>"

definition get_init_with_body :: options where
  "get_init_with_body = empty_options\<lparr>meth := Val ''get'', body := Val (BStr ''payload'')\<rparr>"

definition post_init :: "body \<Rightarrow> options" where
  "post_init b = empty_options\<lparr>meth := Val ''POST'', body := Val b\<rparr>"

definition example_request :: request_like where
  "example_request =
     \<lparr>in_url = Val ''http://api.example.com/v1'', in_meth = Val ''PUT'',
      in_headers = Val (HeadersObject [(''accept'', ''text/plain'')]),
      in_body = Val (BStr ''from request''), in_signal = Val 2\<rparr>"

text \<open>A replacement \<open>fetch\<close> that answers at once and calls nothing.\<close>

definition example_mock :: "input \<Rightarrow> options option \<Rightarrow> call list \<times> (exn + string)" where
  "example_mock inp init = ([], Inr ''mocked'')"

section \<open>Facts shared by the proofs\<close>

lemmas string_ops = toUpperCase_def upper_char_def replace_backslashes_def

lemmas example_values = example_platform_def example_hostname_def object_a1_def json_a1_def
  circular_object_def bare_circular_object_def used_response_def locked_circular_stream_def tls_failure_def
  connection_refused_def empty_options_def TypeError_def Error_def caller_init_def
  get_init_with_body_def post_init_def example_request_def example_mock_def
  ReferenceError_def module_net_original_def module_undeclared_def

lemmas part_000_defs = fetch_part_000_def primary_part_000_def safety_net_stringify_def
  cause_text_def resolve_url_000_def typo_fixes_def hostname_of_def isLocal_000_def
  isPrivate_def selectedDispatcher_def extract_000_def prepare_body_000_def
  cleanHeaders_000_def has_method_def

lemmas part_001_defs = fetch_part_001_def primary_part_001_def safety_net_stringify_def
  cause_text_def resolve_url_throwing_def force_ipv4_def isLocal_substring_def
  selectedDispatcher_def extract_001_def buffer_body_001_def cleanHeaders_001_def
  assign_all_def has_method_def

lemmas net_defs = fetch_net_def primary_net_def resolve_url_throwing_def force_ipv4_def
  isLocal_substring_def selectedDispatcher_def options_net_def merge_options_net_def
  spread_over_def clean_headers_net_def handle_duplex_net_def init_after_net_def
  assign_all_def has_method_def

subsection \<open>Strings\<close>

lemma startsWith_iff: "startsWith s p \<longleftrightarrow> (\<exists>post. s = p @ post)"
  by (induction s p rule: startsWith.induct) auto

lemma str_includes_iff: "str_includes s p \<longleftrightarrow> (\<exists>pre post. s = pre @ p @ post)"
proof (induction s)
  case Nil
  then show ?case by auto
next
  case (Cons c cs)
  show ?case
  proof
    assume "str_includes (c # cs) p"
    then consider "startsWith (c # cs) p" | "str_includes cs p" by auto
    then show "\<exists>pre post. c # cs = pre @ p @ post"
    proof cases
      case 1
      then obtain post where "c # cs = p @ post" by (auto simp: startsWith_iff)
      then have "c # cs = [] @ p @ post" by simp
      then show ?thesis by blast
    next
      case 2
      then obtain pre post where "cs = pre @ p @ post" using Cons.IH by auto
      then have "c # cs = (c # pre) @ p @ post" by simp
      then show ?thesis by blast
    qed
  next
    assume "\<exists>pre post. c # cs = pre @ p @ post"
    then obtain pre post where eq: "c # cs = pre @ p @ post" by auto
    show "str_includes (c # cs) p"
    proof (cases pre)
      case Nil
      then have "startsWith (c # cs) p" using eq by (auto simp: startsWith_iff)
      then show ?thesis by simp
    next
      case (Cons a pre')
      then have "cs = pre' @ p @ post" using eq by simp
      then have "str_includes cs p" using Cons.IH by blast
      then show ?thesis by simp
    qed
  qed
qed

text \<open>\<open>str_replace\<close> rewrites the leftmost occurrence and nothing else.\<close>

lemma str_replace_first:
  "str_includes s p \<Longrightarrow>
   \<exists>pre post. s = pre @ p @ post \<and> str_replace s p r = pre @ r @ post \<and>
     (\<forall>pre' post'. s = pre' @ p @ post' \<longrightarrow> length pre \<le> length pre')"
proof (induction s)
  case Nil
  then show ?case by auto
next
  case (Cons c cs)
  show ?case
  proof (cases "startsWith (c # cs) p")
    case True
    then obtain post where eq: "c # cs = p @ post" by (auto simp: startsWith_iff)
    then have "drop (length p) (c # cs) = post" by simp
    then have "str_replace (c # cs) p r = [] @ r @ post" using True by simp
    moreover have "c # cs = [] @ p @ post" using eq by simp
    ultimately show ?thesis by (metis list.size(3) le0)
  next
    case False
    then have inc: "str_includes cs p" using Cons.prems by simp
    from Cons.IH[OF inc] obtain pre post where
      eq: "cs = pre @ p @ post" and rep: "str_replace cs p r = pre @ r @ post"
      and least: "\<forall>pre' post'. cs = pre' @ p @ post' \<longrightarrow> length pre \<le> length pre'"
      by blast
    have a: "c # cs = (c # pre) @ p @ post" using eq by simp
    have b: "str_replace (c # cs) p r = (c # pre) @ r @ post" using False rep by simp
    have c: "\<forall>pre' post'. c # cs = pre' @ p @ post' \<longrightarrow> length (c # pre) \<le> length pre'"
    proof (intro allI impI)
      fix pre' post' assume e: "c # cs = pre' @ p @ post'"
      show "length (c # pre) \<le> length pre'"
      proof (cases pre')
        case Nil
        then have "startsWith (c # cs) p" using e by (auto simp: startsWith_iff)
        then show ?thesis using False by simp
      next
        case (Cons a q)
        then have "cs = q @ p @ post'" using e by simp
        then have "length pre \<le> length q" using least by blast
        then show ?thesis using Cons by simp
      qed
    qed
    from a b c show ?thesis by blast
  qed
qed

lemma typo_fixes_force_ipv4:
  "typo_fixes url =
     force_ipv4 (if str_includes url [CHR 0x5C] then replace_backslashes url else url)"
  by (simp add: typo_fixes_def force_ipv4_def Let_def)

subsection \<open>What reaches \<open>undiciFetch\<close>\<close>

lemma primary_part_000_Inr:
  assumes "primary_part_000 env inp init = Inr (url, opts)"
  shows "\<exists>url0 finalBody.
           resolve_url_000 inp = Some url0 \<and> url = typo_fixes url0 \<and>
           prepare_body_000 (snd (extract_000 inp init)) = Inr finalBody \<and>
           opts = \<lparr>meth = Val (fst (extract_000 inp init)),
                   headers = Val (PlainObject
                     (cleanHeaders_000 (isLocal_000 (hostname_of env url)) (hostname_of env url))),
                   body = (if truthy finalBody then as_field finalBody else Missing),
                   signal = Missing, duplex = Missing,
                   dispatcher = Val (selectedDispatcher (isLocal_000 (hostname_of env url))),
                   extras = []\<rparr>"
  using assms
  by (auto simp: primary_part_000_def Let_def split: option.splits sum.splits prod.splits)

lemma fetch_part_000_calls:
  assumes "UndiciFetch url opts \<in> set (fst (fetch_part_000 env inp init))"
  shows "primary_part_000 env inp init = Inr (url, opts)"
  using assms
  by (auto simp: fetch_part_000_def safety_net_stringify_def split: sum.splits prod.splits)

lemma fetch_part_001_calls:
  assumes "UndiciFetch url opts \<in> set (fst (fetch_part_001 env inp init))"
  shows "primary_part_001 inp init = Inr (url, opts)"
  using assms
  by (auto simp: fetch_part_001_def safety_net_stringify_def split: sum.splits prod.splits)

lemma fetch_net_calls:
  assumes "UndiciFetch url opts \<in> set (fst (fetch_net env inp init))"
  shows "primary_net inp init = Inr (url, opts)"
  using assms
  by (auto simp: fetch_net_def split: sum.splits prod.splits)

subsection \<open>The body coercions, case by case\<close>

lemma prepare_body_000_simps:
  "prepare_body_000 None = Inr None"
  "prepare_body_000 (Some BNull) = Inr (Some BNull)"
  "prepare_body_000 (Some (BStr s)) = Inr (Some (BStr s))"
  "prepare_body_000 (Some (BObj ob)) =
     (case text_fn ob of
        Some drained \<Rightarrow> (case drained of Inl e \<Rightarrow> Inl e | Inr s \<Rightarrow> Inr (Some (BStr s)))
      | None \<Rightarrow>
          (case JSON_stringify ob of
             Inr j \<Rightarrow> Inr (map_option BStr j)
           | Inl e \<Rightarrow>
               (case String_of ob of Inl e' \<Rightarrow> Inl e' | Inr s \<Rightarrow> Inr (Some (BStr s)))))"
  by (simp_all add: prepare_body_000_def)

lemma buffer_body_001_simps:
  "buffer_body_001 None = Inr None"
  "buffer_body_001 (Some BNull) = Inr (Some BNull)"
  "buffer_body_001 (Some (BStr s)) = Inr (Some (BStr s))"
  "buffer_body_001 (Some (BObj ob)) =
     (if isBuffer ob then Inr (Some (BObj ob))
      else (case Response_text ob of
              Inr s \<Rightarrow> Inr (Some (BStr s))
            | Inl e \<Rightarrow>
                (case JSON_stringify ob of
                   Inr j \<Rightarrow> Inr (map_option BStr j)
                 | Inl e2 \<Rightarrow>
                     (case String_of ob of
                        Inl e3 \<Rightarrow> Inl e3
                      | Inr s \<Rightarrow> Inr (Some (BStr s))))))"
  by (simp_all add: buffer_body_001_def)

text \<open>The merged method and raw body of part_000 and part_001.\<close>

lemma extract_000_object:
  assumes "has_key (in_meth r)"
  shows "fst (extract_000 (IObject r) (Some i)) =
           toUpperCase (str_or (read (meth i)) (str_or (read (in_meth r)) ''GET''))"
    and "snd (extract_000 (IObject r) (Some i)) =
           (if fst (extract_000 (IObject r) (Some i)) = ''GET'' \<or>
               fst (extract_000 (IObject r) (Some i)) = ''HEAD'' then None
            else if truthy (read (body i)) then read (body i) else read (in_body r))"
  using assms by (simp_all add: extract_000_def Let_def)

lemma extract_000_string:
  "fst (extract_000 (IString u) (Some i)) = toUpperCase (str_or (read (meth i)) ''GET'')"
  "snd (extract_000 (IString u) (Some i)) =
     (if fst (extract_000 (IString u) (Some i)) = ''GET'' \<or>
         fst (extract_000 (IString u) (Some i)) = ''HEAD'' then None
      else if truthy (read (body i)) then read (body i) else None)"
  by (simp_all add: extract_000_def Let_def)

lemma extract_001_object:
  assumes "has_key (in_meth r)"
  shows "extract_001 (IObject r) (Some i) =
           ((if truthy_str (read (meth i)) then read (meth i) else read (in_meth r)),
            (case read (headers i) of None \<Rightarrow> read (in_headers r) | Some h \<Rightarrow> Some h),
            (if truthy (read (body i)) then read (body i) else read (in_body r)))"
  using assms by (simp add: extract_001_def)

lemma extract_001_string:
  "extract_001 (IString u) (Some i) =
     ((if truthy_str (read (meth i)) then read (meth i) else Some ''GET''),
      (case read (headers i) of None \<Rightarrow> Some (PlainObject []) | Some h \<Rightarrow> Some h),
      (if truthy (read (body i)) then read (body i) else None))"
  by (simp add: extract_001_def)

lemma primary_part_001_Inr:
  assumes "primary_part_001 inp init = Inr (url, opts)"
  shows "\<exists>url0 m finalBody.
           resolve_url_throwing ''Cannot parse URL'' inp = Inr url0 \<and> url = force_ipv4 url0 \<and>
           fst (extract_001 inp init) = Some m \<and>
           buffer_body_001 (snd (snd (extract_001 inp init))) = Inr finalBody \<and>
           opts = \<lparr>meth = Val (toUpperCase m),
                   headers = Val (PlainObject
                     (cleanHeaders_001 (fst (snd (extract_001 inp init))) (isLocal_substring url))),
                   body = as_field finalBody,
                   signal = Missing, duplex = Missing,
                   dispatcher = Val (selectedDispatcher (isLocal_substring url)),
                   extras = []\<rparr>"
  using assms
  by (auto simp: primary_part_001_def Let_def split: option.splits sum.splits prod.splits)

section \<open>The safety net\<close>

text \<open>
  When the Primary pipeline of part_000 or part_001 fails with an error whose cause the
  diagnostic line can serialise (or that has no cause), exactly one fallback follows: the
  baseline function is called once, after at most one call of \<open>undiciFetch\<close>, with the
  caller's \<open>input\<close> and \<open>init\<close>, and its outcome is the outcome of the dispatch.
\<close>

lemma part_000_fallback_once:
  assumes "primary_part_000 env inp init = Inl err \<or>
           (\<exists>url opts. primary_part_000 env inp init = Inr (url, opts) \<and>
                        undiciFetch env url opts = Inl err)"
    and "cause_text err = Inr c"
  shows "snd (fetch_part_000 env inp init) = baseFetch env inp init \<and>
         (\<exists>calls. fst (fetch_part_000 env inp init) = calls @ [BaseFetch inp init] \<and>
                  length calls \<le> 1 \<and> (\<forall>x \<in> set calls. \<exists>u opts. x = UndiciFetch u opts))"
  using assms
  by (auto simp: fetch_part_000_def safety_net_stringify_def split: sum.splits prod.splits)

lemma part_001_fallback_once:
  assumes "primary_part_001 inp init = Inl err \<or>
           (\<exists>url opts. primary_part_001 inp init = Inr (url, opts) \<and>
                        undiciFetch env url opts = Inl err)"
    and "cause_text err = Inr c"
  shows "snd (fetch_part_001 env inp init) = baseFetch env inp init \<and>
         (\<exists>calls. fst (fetch_part_001 env inp init) = calls @ [BaseFetch inp init] \<and>
                  length calls \<le> 1 \<and> (\<forall>x \<in> set calls. \<exists>u opts. x = UndiciFetch u opts))"
  using assms
  by (auto simp: fetch_part_001_def safety_net_stringify_def split: sum.splits prod.splits)

text \<open>
  The spread-merge variant (net.ts) always falls back exactly once, with the caller's
  \<open>input\<close> and the caller's \<open>init\<close> object, whose content is by then either untouched
  or rewritten in place by the header cleaning and the duplex rule.
\<close>

lemma net_fallback_once:
  assumes "primary_net inp init = Inl err \<or>
           (\<exists>url opts. primary_net inp init = Inr (url, opts) \<and>
                        undiciFetch env url opts = Inl err)"
  shows "\<exists>calls init'.
           fst (fetch_net env inp init) = calls @ [BaseFetch inp init'] \<and>
           snd (fetch_net env inp init) = baseFetch env inp init' \<and>
           length calls \<le> 1 \<and> (\<forall>x \<in> set calls. \<exists>u opts. x = UndiciFetch u opts) \<and>
           (init' = init \<or> init' = init_after_net inp init)"
  using assms
  by (auto simp: fetch_net_def split: sum.splits prod.splits)

text \<open>A request-like input leaves \<open>init\<close> untouched in net.ts; so does an absent \<open>init\<close>.\<close>

lemma init_after_net_unchanged:
  "has_method inp \<Longrightarrow> init_after_net inp init = init"
  "init_after_net inp None = None"
  by (simp_all add: init_after_net_def split: option.splits)

text \<open>
  C1 fails on two paths.
  \<^item> part_000 (and part_001): the \<open>catch\<close> block evaluates
    \<open>JSON.stringify(err.cause)\<close> before it calls \<open>baseFetch\<close>, unguarded. A transport
    error whose cause cannot be serialised makes the block throw: no fallback attempt is
    made, and the caller sees the serialisation error.
  \<^item> net.ts: for a string input, \<open>options\<close> is the caller's \<open>init\<close> object itself, and
    \<open>options.duplex = 'half'\<close> (like \<open>options.headers = h\<close>) writes into it. When
    \<open>undiciFetch\<close> then fails, \<open>baseFetch\<close> receives the rewritten \<open>init\<close>, not the
    options the caller passed.
\<close>

theorem safety_net_misses_or_alters_fallback:
  "fetch_part_000 (example_platform (Inl tls_failure) (Inr ''baseline''))
       (IString ''https://api.example.com/v1'') None =
     ([UndiciFetch ''https://api.example.com/v1''
         \<lparr>meth = Val ''GET'',
          headers = Val (PlainObject [(''Content-Type'', ''application/json''),
                                      (''Connection'', ''keep-alive'')]),
          body = Missing, signal = Missing, duplex = Missing,
          dispatcher = Val proxyAgent, extras = []\<rparr>],
      Inl (TypeError ''Converting circular structure to JSON'')) \<and>
   fetch_net (example_platform (Inl connection_refused) (Inr ''baseline''))
       (IString ''http://api.example.com/v1'') (Some (post_init (BObj object_a1))) =
     ([UndiciFetch ''http://api.example.com/v1''
         ((post_init (BObj object_a1))\<lparr>duplex := Val ''half'', dispatcher := Val proxyAgent\<rparr>),
       BaseFetch (IString ''http://api.example.com/v1'')
         (Some ((post_init (BObj object_a1))\<lparr>duplex := Val ''half''\<rparr>))],
      Inr ''baseline'') \<and>
   (post_init (BObj object_a1))\<lparr>duplex := Val ''half''\<rparr> \<noteq> post_init (BObj object_a1)"
  by (simp add: part_000_defs net_defs string_ops example_values)

section \<open>Destination classification\<close>

subsection \<open>Reading an IPv4 literal back into its text\<close>

lemma split_dots_nonempty: "split_dots h \<noteq> []"
  by (induction h) (auto split: list.splits)

lemma split_dots_cons:
  "split_dots h = x # y # ys \<Longrightarrow> \<exists>rest. h = x @ CHR ''.'' # rest \<and> split_dots rest = y # ys"
proof (induction h arbitrary: x)
  case Nil
  then show ?case by simp
next
  case (Cons c cs)
  show ?case
  proof (cases "c = CHR ''.''")
    case True
    then show ?thesis using Cons.prems by auto
  next
    case False
    then obtain x' where x: "x = c # x'" and s: "split_dots cs = x' # y # ys"
      using Cons.prems split_dots_nonempty [of cs] by (auto split: list.splits)
    from Cons.IH [OF s] obtain rest where "cs = x' @ CHR ''.'' # rest" "split_dots rest = y # ys"
      by blast
    then show ?thesis using x by auto
  qed
qed

lemma digit_value_Some:
  "digit_value c = Some d \<Longrightarrow> d < 10 \<and> c = ''0123456789'' ! d"
  by (auto simp: digit_value_def split: if_splits)

lemma octet_cases:
  assumes "octet s = Some n"
  shows "(\<exists>c1 d1. s = [c1] \<and> digit_value c1 = Some d1 \<and> n = d1) \<or>
         (\<exists>c1 c2 d1 d2. s = [c1, c2] \<and> digit_value c1 = Some d1 \<and> digit_value c2 = Some d2 \<and>
            d1 \<noteq> 0 \<and> n = 10 * d1 + d2) \<or>
         (\<exists>c1 c2 c3 d1 d2 d3. s = [c1, c2, c3] \<and> digit_value c1 = Some d1 \<and>
            digit_value c2 = Some d2 \<and> digit_value c3 = Some d3 \<and> d1 \<noteq> 0 \<and>
            n = 100 * d1 + 10 * d2 + d3)"
proof -
  from assms have ne: "s \<noteq> []" and le: "length s \<le> 3"
    and lz: "1 < length s \<longrightarrow> \<not> startsWith s ''0''"
    and dv: "decimal_value 0 s = Some n"
    by (auto simp: octet_def split: if_splits option.splits)
  from ne le consider c1 where "s = [c1]" | c1 c2 where "s = [c1, c2]"
    | c1 c2 c3 where "s = [c1, c2, c3]"
    by (cases s; cases "tl s"; cases "tl (tl s)"; cases "tl (tl (tl s))") auto
  then show ?thesis
  proof cases
    case 1
    then show ?thesis using dv by (auto split: option.splits)
  next
    case 2
    have "digit_value c1 \<noteq> Some 0" if "digit_value c1 = Some d" for d
      using lz 2 that digit_value_Some [of c1 0] by auto
    then show ?thesis using dv 2 by (auto split: option.splits)
  next
    case 3
    have "digit_value c1 \<noteq> Some 0" if "digit_value c1 = Some d" for d
      using lz 3 that digit_value_Some [of c1 0] by auto
    then show ?thesis using dv 3 by (auto split: option.splits)
  qed
qed

lemma three_digits:
  fixes d1 d2 d3 x y z :: nat
  assumes "100 * d1 + 10 * d2 + d3 = 100 * x + 10 * y + z"
    "d2 < 10" "d3 < 10" "y < 10" "z < 10"
  shows "d1 = x \<and> d2 = y \<and> d3 = z"
proof -
  have a: "d1 = x" using assms by arith
  then have "10 * d2 + d3 = 10 * y + z" using assms(1) by simp
  then have b: "d2 = y" using assms by arith
  then show ?thesis using a assms(1) by simp
qed

lemma two_digits:
  fixes d1 d2 x y :: nat
  assumes "10 * d1 + d2 = 10 * x + y" "d2 < 10" "y < 10"
  shows "d1 = x \<and> d2 = y"
proof -
  have a: "d1 = x" using assms by arith
  then show ?thesis using assms(1) by simp
qed

lemma digit_value_pairs:
  "digit_value c = Some d \<Longrightarrow>
     (d = 0 \<and> c = CHR ''0'') \<or> (d = 1 \<and> c = CHR ''1'') \<or> (d = 2 \<and> c = CHR ''2'') \<or>
     (d = 3 \<and> c = CHR ''3'') \<or> (d = 4 \<and> c = CHR ''4'') \<or> (d = 5 \<and> c = CHR ''5'') \<or>
     (d = 6 \<and> c = CHR ''6'') \<or> (d = 7 \<and> c = CHR ''7'') \<or> (d = 8 \<and> c = CHR ''8'') \<or>
     (d = 9 \<and> c = CHR ''9'')"
  by (auto simp: digit_value_def split: if_splits)

lemma octet_three:
  assumes "octet s = Some (100 * x + 10 * y + z)" "0 < x" "y < 10" "z < 10"
  shows "\<exists>c1 c2 c3. s = [c1, c2, c3] \<and> digit_value c1 = Some x \<and>
           digit_value c2 = Some y \<and> digit_value c3 = Some z"
  using octet_cases [OF assms(1)]
proof (elim disjE exE conjE)
  fix c1 d1 assume "digit_value c1 = Some d1" "100 * x + 10 * y + z = d1"
  then have False using assms(2) digit_value_Some [of c1 d1] by simp
  then show ?thesis ..
next
  fix c1 c2 d1 d2
  assume "digit_value c1 = Some d1" "digit_value c2 = Some d2"
    "100 * x + 10 * y + z = 10 * d1 + d2"
  then have False
    using assms(2) digit_value_Some [of c1 d1] digit_value_Some [of c2 d2] by arith
  then show ?thesis ..
next
  fix c1 c2 c3 d1 d2 d3
  assume h: "s = [c1, c2, c3]" "digit_value c1 = Some d1" "digit_value c2 = Some d2"
    "digit_value c3 = Some d3" "100 * x + 10 * y + z = 100 * d1 + 10 * d2 + d3"
  have "d2 < 10" "d3 < 10" using h(3,4) digit_value_Some by blast+
  then have "d1 = x \<and> d2 = y \<and> d3 = z"
    using three_digits [of d1 d2 d3 x y z] h(5) assms(3,4) by simp
  then show ?thesis using h by blast
qed

lemma octet_two:
  assumes "octet s = Some (10 * x + y)" "0 < x" "x < 10" "y < 10"
  shows "\<exists>c1 c2. s = [c1, c2] \<and> digit_value c1 = Some x \<and> digit_value c2 = Some y"
  using octet_cases [OF assms(1)]
proof (elim disjE exE conjE)
  fix c1 d1 assume "digit_value c1 = Some d1" "10 * x + y = d1"
  then have False using assms(2) digit_value_Some [of c1 d1] by simp
  then show ?thesis ..
next
  fix c1 c2 d1 d2
  assume h: "s = [c1, c2]" "digit_value c1 = Some d1" "digit_value c2 = Some d2"
    "10 * x + y = 10 * d1 + d2"
  have "d2 < 10" using h(3) digit_value_Some by blast
  then have "d1 = x \<and> d2 = y" using two_digits [of d1 d2 x y] h(4) assms(4) by simp
  then show ?thesis using h by blast
next
  fix d1 d2 d3 :: nat
  assume "d1 \<noteq> 0" "10 * x + y = 100 * d1 + 10 * d2 + d3"
  then have False using assms(3,4) by arith
  then show ?thesis ..
qed

lemma digit_char:
  "digit_value c = Some 0 \<Longrightarrow> c = CHR ''0''"
  "digit_value c = Some 1 \<Longrightarrow> c = CHR ''1''"
  "digit_value c = Some (Suc 0) \<Longrightarrow> c = CHR ''1''"
  "digit_value c = Some 2 \<Longrightarrow> c = CHR ''2''"
  "digit_value c = Some 6 \<Longrightarrow> c = CHR ''6''"
  "digit_value c = Some 7 \<Longrightarrow> c = CHR ''7''"
  "digit_value c = Some 8 \<Longrightarrow> c = CHR ''8''"
  "digit_value c = Some 9 \<Longrightarrow> c = CHR ''9''"
  by (drule digit_value_pairs, simp)+

lemma octet_first:
  "octet s = Some 127 \<Longrightarrow> s = ''127''"
  "octet s = Some 10 \<Longrightarrow> s = ''10''"
  "octet s = Some 172 \<Longrightarrow> s = ''172''"
  "octet s = Some 192 \<Longrightarrow> s = ''192''"
  "octet s = Some 168 \<Longrightarrow> s = ''168''"
  using octet_three [of s 1 2 7] octet_two [of s 1 0] octet_three [of s 1 7 2]
    octet_three [of s 1 9 2] octet_three [of s 1 6 8]
  by (auto dest!: digit_char)

lemma octet_16_31:
  assumes "octet s = Some b" "16 \<le> b" "b \<le> 31"
  shows "\<exists>c1 c2. s = [c1, c2] \<and>
           ((c1 = CHR ''1'' \<and> c2 \<in> set ''6789'') \<or>
            (c1 = CHR ''2'' \<and> c2 \<in> set ''0123456789'') \<or>
            (c1 = CHR ''3'' \<and> c2 \<in> set ''01''))"
proof -
  from octet_cases [OF assms(1)] obtain c1 c2 d1 d2 where
    s: "s = [c1, c2]" and v1: "digit_value c1 = Some d1" and v2: "digit_value c2 = Some d2"
    and b: "b = 10 * d1 + d2"
  proof (elim disjE exE conjE)
    fix c1 d1 assume "digit_value c1 = Some d1" "b = d1"
    then have False using assms(2) digit_value_Some [of c1 d1] by simp
    then show ?thesis ..
  next
    fix c1 c2 d1 d2
    assume "s = [c1, c2]" "digit_value c1 = Some d1" "digit_value c2 = Some d2"
      "b = 10 * d1 + d2"
    then show ?thesis using that by blast
  next
    fix c1 c2 c3 :: char and d1 d2 d3 :: nat
    assume "d1 \<noteq> 0" "b = 100 * d1 + 10 * d2 + d3"
    then have False using assms(3) by simp
    then show ?thesis ..
  qed
  have r2: "d2 < 10" using v2 digit_value_Some by blast
  have d: "(d1 = 1 \<and> 6 \<le> d2) \<or> d1 = 2 \<or> (d1 = 3 \<and> d2 \<le> 1)"
    using assms(2,3) b r2 by arith
  have any: "c2 \<in> set ''0123456789''"
    using digit_value_pairs [OF v2] by auto
  from d show ?thesis
  proof (elim disjE conjE)
    assume h: "d1 = 1" "6 \<le> d2"
    have "c1 = CHR ''1''" using digit_value_pairs [OF v1] h(1) by simp
    moreover have "c2 \<in> set ''6789''" using digit_value_pairs [OF v2] h(2) by auto
    ultimately show ?thesis using s by blast
  next
    assume h: "d1 = 2"
    have "c1 = CHR ''2''" using digit_value_pairs [OF v1] h by simp
    then show ?thesis using s any by blast
  next
    assume h: "d1 = 3" "d2 \<le> 1"
    have "c1 = CHR ''3''" using digit_value_pairs [OF v1] h(1) by simp
    moreover have "c2 \<in> set ''01''" using digit_value_pairs [OF v2] h(2) by auto
    ultimately show ?thesis using s by blast
  qed
qed

lemma startsWith_append: "startsWith (p @ rest) p"
  by (simp add: startsWith_iff)

text \<open>
  Every hostname the specification's rule calls Local is classified Local by the
  range-based variant: the regular expression accepts at least the private and loopback
  IPv4 literals.
\<close>

lemma spec_Local_isLocal_000:
  assumes "spec_Local hostname"
  shows "isLocal_000 hostname"
proof (cases "hostname = ''localhost'' \<or> hostname = ''0.0.0.0''")
  case True
  then show ?thesis by (auto simp: isLocal_000_def)
next
  case False
  then obtain a b c d where lit: "ipv4_literal hostname = Some (a, b, c, d)"
    and rng: "a = 127 \<or> a = 10 \<or> (a = 172 \<and> 16 \<le> b \<and> b \<le> 31) \<or> (a = 192 \<and> b = 168)"
    using assms by (auto simp: spec_Local_def split: option.splits)
  from lit obtain s1 s2 s3 s4 where
    sp: "split_dots hostname = [s1, s2, s3, s4]" and o1: "octet s1 = Some a" and o2: "octet s2 = Some b"
    by (auto simp: ipv4_literal_def map_eq_Cons_conv split: list.splits option.splits)
  from split_dots_cons [OF sp] obtain rest where
    h1: "hostname = s1 @ CHR ''.'' # rest" and sp2: "split_dots rest = [s2, s3, s4]" by blast
  from split_dots_cons [OF sp2] obtain rest2 where
    h2: "rest = s2 @ CHR ''.'' # rest2" by blast
  from rng show ?thesis
  proof (elim disjE conjE)
    assume "a = 127"
    then have "s1 = ''127''" using o1 octet_first by blast
    then have "startsWith hostname ''127.''" using h1 by simp
    then show ?thesis by (simp add: isLocal_000_def isPrivate_def)
  next
    assume "a = 10"
    then have "s1 = ''10''" using o1 octet_first by blast
    then have "startsWith hostname ''10.''" using h1 by simp
    then show ?thesis by (simp add: isLocal_000_def isPrivate_def)
  next
    assume "a = 192" "b = 168"
    then have "s1 = ''192''" "s2 = ''168''" using o1 o2 octet_first by blast+
    then have "startsWith hostname ''192.168.''" using h1 h2 by simp
    then show ?thesis by (simp add: isLocal_000_def isPrivate_def)
  next
    assume ab: "a = 172" "16 \<le> b" "b \<le> 31"
    then have s1: "s1 = ''172''" using o1 octet_first by blast
    from octet_16_31 [OF o2 ab(2,3)] obtain c1 c2 where
      s2: "s2 = [c1, c2]" and
      m: "(c1 = CHR ''1'' \<and> c2 \<in> set ''6789'') \<or>
          (c1 = CHR ''2'' \<and> c2 \<in> set ''0123456789'') \<or>
          (c1 = CHR ''3'' \<and> c2 \<in> set ''01'')" by blast
    have h: "hostname = ''172.'' @ c1 # c2 # CHR ''.'' # rest2" using h1 h2 s1 s2 by simp
    have "startsWith hostname ''172.''" using h by simp
    moreover have "drop 4 hostname = c1 # c2 # CHR ''.'' # rest2" using h by simp
    ultimately have "isPrivate hostname" using m unfolding isPrivate_def by simp
    then show ?thesis by (simp add: isLocal_000_def)
  qed
qed

text \<open>
  C2 fails in the other direction. The regular expression of part_000 is anchored at the
  start only, so any hostname that begins with \<open>127.\<close>, \<open>10.\<close>, \<open>192.168.\<close> or
  \<open>172.16.\<close> to \<open>172.31.\<close> is Local, IPv4 literal or not: \<open>10.example.com\<close> and
  \<open>127.0.0.1.example.com\<close> are DNS names, are Remote by the rule, and get the direct
  dispatcher and a \<open>Host\<close> header. The substring variants (part_001, net.ts) test the
  whole URL for \<open>127.0.0.1\<close> and \<open>0.0.0.0\<close>: a public host with \<open>127.0.0.1\<close> in its
  query is Local, and \<open>10.0.0.5\<close>, Local by the rule, is Remote.
\<close>

theorem classifier_accepts_prefixes:
  "isLocal_000 ''10.example.com'' \<and> \<not> spec_Local ''10.example.com'' \<and>
   isLocal_000 ''127.0.0.1.example.com'' \<and> \<not> spec_Local ''127.0.0.1.example.com'' \<and>
   primary_part_000 (example_platform (Inr ''primary'') (Inr ''baseline''))
       (IString ''http://10.example.com/v1'') None =
     Inr (''http://10.example.com/v1'',
          \<lparr>meth = Val ''GET'',
           headers = Val (PlainObject [(''Content-Type'', ''application/json''),
                                       (''Connection'', ''keep-alive''),
                                       (''Host'', ''10.example.com'')]),
           body = Missing, signal = Missing, duplex = Missing,
           dispatcher = Val localAgent, extras = []\<rparr>) \<and>
   isLocal_substring ''http://api.example.com/?next=127.0.0.1'' \<and>
   example_hostname ''http://api.example.com/?next=127.0.0.1'' = Some ''api.example.com'' \<and>
   \<not> spec_Local ''api.example.com'' \<and>
   \<not> isLocal_substring ''http://10.0.0.5/'' \<and>
   example_hostname ''http://10.0.0.5/'' = Some ''10.0.0.5'' \<and>
   spec_Local ''10.0.0.5''"
  by (simp add: part_000_defs isLocal_substring_def string_ops example_values spec_Local_def
      ipv4_literal_def octet_def digit_value_def)

section \<open>The mock slot and the entry point\<close>

text \<open>
  The entry point of the second document of net.ts consults the slot first: with a
  replacement installed the call is the replacement's call, and \<open>base\<close> is not run.
\<close>

lemma fetch_net_original_delegates:
  "mockFetch s = Bound (Some mock) \<Longrightarrow> fetch_net_original s base inp init = mock inp init"
  "mockFetch s = Bound None \<Longrightarrow> fetch_net_original s base inp init = base inp init"
  by (simp_all add: fetch_net_original_def)

text \<open>
  The closure of part_000 reads no slot. Even in a state where the identifier resolves
  (a binding that something outside part_000 would have to supply, since the file declares
  none), a call made inside an activation is answered by the pipeline.
\<close>

lemma part_000_fetch_inside_activation:
  assumes "mockFetch s = Bound v"
  shows "fst (mockFetchForTesting mock
                (\<lambda>t. (Inr (Plain (fetch_part_000 env inp init)), t)) s) =
           Inr (Plain (fetch_part_000 env inp init))"
  using assms by (simp add: mockFetchForTesting_def Let_def)

text \<open>
  C3 fails on part_000 (as on part_001 and the first document of net.ts). The closure
  returned there never mentions \<open>mockFetch\<close>: every invocation runs the pipeline and calls
  \<open>undiciFetch\<close>, and no slot is checked first. Nor can a replacement be installed: the
  module declares no \<open>mockFetch\<close>, so \<open>mockFetchForTesting(example_mock, () => fetch(url))\<close>
  throws a \<open>ReferenceError\<close> at its first statement and leaves the state as it was, the
  callback not run. The same activation in the second document of net.ts, whose entry point
  is \<open>(mockFetch || baseFetch)(input, init)\<close>, gets the mock's answer.
\<close>

theorem part_000_entry_point_checks_no_slot:
  "fetch_part_000 (example_platform (Inr ''primary'') (Inr ''baseline''))
       (IString ''http://api.example.com/v1'') None =
     ([UndiciFetch ''http://api.example.com/v1''
         \<lparr>meth = Val ''GET'',
          headers = Val (PlainObject [(''Content-Type'', ''application/json''),
                                      (''Connection'', ''keep-alive'')]),
          body = Missing, signal = Missing, duplex = Missing,
          dispatcher = Val proxyAgent, extras = []\<rparr>],
      Inr ''primary'') \<and>
   mockFetchForTesting example_mock
       (\<lambda>s. (Inr (Plain (fetch_part_000 (example_platform (Inr ''primary'') (Inr ''baseline''))
                            (IString ''http://api.example.com/v1'') None)), s))
       module_undeclared =
     (Inl (ReferenceError ''mockFetch is not defined''), module_undeclared) \<and>
   example_mock (IString ''http://api.example.com/v1'') None = ([], Inr ''mocked'') \<and>
   mockFetchForTesting example_mock
       (\<lambda>s. (Inr (Plain (fetch_net_original s base
                            (IString ''http://api.example.com/v1'') None)), s))
       module_net_original =
     (Inr (Plain ([], Inr ''mocked'')),
      \<lparr>mockFetch = Bound None, assigned = [Some example_mock, None]\<rparr>)"
  by (simp add: mockFetchForTesting_def assign_mockFetch_def fetch_net_original_def Let_def
      part_000_defs string_ops example_values)

section \<open>The test seam and the slot\<close>

text \<open>
  Where the identifier resolves (the second document of net.ts), \<open>mockFetchForTesting\<close>
  restores \<open>mockFetch\<close> to the value it held immediately before the activation, with
  exactly one assignment after the callback, on every exit path: when the callback returns a
  value that is no promise, when it throws, and, when it returns a promise, not before the
  promise settles (the state at return is the callback's) but as the one reaction added to
  it, which runs at settlement after the promise's own reactions, whether the promise
  fulfils or rejects. An activation inside the callback of another restores the slot to the
  outer replacement, not to \<open>undefined\<close>.
\<close>

lemma mockFetchForTesting_restores_where_declared:
  assumes "mockFetch s = Bound original"
  shows "(callback (assign_mockFetch (Some theFetch) s) = (Inr (Plain v), after) \<longrightarrow>
            mockFetchForTesting theFetch callback s =
              (Inr (Plain v),
               after\<lparr>mockFetch := Bound original, assigned := assigned after @ [original]\<rparr>)) \<and>
         (callback (assign_mockFetch (Some theFetch) s) = (Inl e, after) \<longrightarrow>
            mockFetchForTesting theFetch callback s =
              (Inl e,
               after\<lparr>mockFetch := Bound original, assigned := assigned after @ [original]\<rparr>)) \<and>
         (callback (assign_mockFetch (Some theFetch) s) = (Inr (Promised p), after) \<longrightarrow>
            mockFetchForTesting theFetch callback s =
              (Inr (Promised (promise_finally p (assign_mockFetch original))), after) \<and>
            (\<forall>t. settle (promise_finally p (assign_mockFetch original)) t =
                   (outcome p,
                    (snd (settle p t))\<lparr>mockFetch := Bound original,
                       assigned := assigned (snd (settle p t)) @ [original]\<rparr>))) \<and>
         (inner (assign_mockFetch (Some innerFetch) (assign_mockFetch (Some theFetch) s)) =
            (Inr (Plain w), after_inner) \<longrightarrow>
            mockFetch (snd (mockFetchForTesting innerFetch inner
                              (assign_mockFetch (Some theFetch) s))) =
              Bound (Some theFetch))"
  using assms
  by (simp add: mockFetchForTesting_def assign_mockFetch_def settle_def promise_finally_def
      Let_def)

text \<open>The three exit paths and a nested activation, run in the second document of net.ts.\<close>

lemma mockFetchForTesting_restores_examples:
  "mockFetchForTesting (1::nat) (\<lambda>s. (Inr (Plain (mockFetch s)), s))
       \<lparr>mockFetch = Bound (Some 7), assigned = []\<rparr> =
     (Inr (Plain (Bound (Some 1))),
      \<lparr>mockFetch = Bound (Some 7), assigned = [Some 1, Some 7]\<rparr>) \<and>
   mockFetchForTesting (1::nat)
       (\<lambda>s. (Inl (Error ''boom'') :: exn + (nat module_state, nat) returned, s))
       module_net_original =
     (Inl (Error ''boom''), \<lparr>mockFetch = Bound None, assigned = [Some 1, None]\<rparr>) \<and>
   mockFetchForTesting (2::nat) (\<lambda>s. (Inr (Promised (Promise (Inr (5::nat)) [])), s))
       \<lparr>mockFetch = Bound (Some 1), assigned = []\<rparr> =
     (Inr (Promised (promise_finally (Promise (Inr 5) []) (assign_mockFetch (Some 1)))),
      \<lparr>mockFetch = Bound (Some 2), assigned = [Some 2]\<rparr>) \<and>
   settle (promise_finally (Promise (Inr (5::nat)) []) (assign_mockFetch (Some (1::nat))))
       \<lparr>mockFetch = Bound (Some 2), assigned = [Some 2]\<rparr> =
     (Inr 5, \<lparr>mockFetch = Bound (Some 1), assigned = [Some 2, Some 1]\<rparr>) \<and>
   mockFetch (snd (mockFetchForTesting (2::nat) (\<lambda>s. (Inr (Plain (0::nat)), s))
       (assign_mockFetch (Some 1) module_net_original))) = Bound (Some 1)"
proof -
  let ?s1 = "\<lparr>mockFetch = Bound (Some (7::nat)), assigned = []\<rparr>"
  let ?s2 = "module_net_original :: nat module_state"
  let ?s3 = "\<lparr>mockFetch = Bound (Some (1::nat)), assigned = []\<rparr>"
  have b1: "mockFetch ?s1 = Bound (Some 7)" by simp
  have b2: "mockFetch ?s2 = Bound None" by (simp add: module_net_original_def)
  have b3: "mockFetch ?s3 = Bound (Some 1)" by simp
  have a: "mockFetchForTesting (1::nat) (\<lambda>s. (Inr (Plain (mockFetch s)), s)) ?s1 =
     (Inr (Plain (Bound (Some 1))),
      \<lparr>mockFetch = Bound (Some 7), assigned = [Some 1, Some 7]\<rparr>)"
    using mockFetchForTesting_restores_where_declared
      [OF b1, where callback = "\<lambda>s. (Inr (Plain (mockFetch s)), s)" and theFetch = 1
         and v = "Bound (Some 1)"
         and after = "\<lparr>mockFetch = Bound (Some 1), assigned = [Some 1]\<rparr>",
       THEN conjunct1]
    by (simp add: assign_mockFetch_def)
  have b: "mockFetchForTesting (1::nat)
       (\<lambda>s. (Inl (Error ''boom'') :: exn + (nat module_state, nat) returned, s)) ?s2 =
     (Inl (Error ''boom''), \<lparr>mockFetch = Bound None, assigned = [Some 1, None]\<rparr>)"
    using mockFetchForTesting_restores_where_declared
      [OF b2, where callback = "\<lambda>s. (Inl (Error ''boom''), s)" and theFetch = 1
         and e = "Error ''boom''"
         and after = "\<lparr>mockFetch = Bound (Some 1), assigned = [Some 1]\<rparr>",
       THEN conjunct2, THEN conjunct1]
    by (simp add: assign_mockFetch_def module_net_original_def)
  have c: "mockFetchForTesting (2::nat)
       (\<lambda>s. (Inr (Promised (Promise (Inr (5::nat)) [])), s)) ?s3 =
          (Inr (Promised (promise_finally (Promise (Inr 5) []) (assign_mockFetch (Some 1)))),
           \<lparr>mockFetch = Bound (Some 2), assigned = [Some 2]\<rparr>) \<and>
          settle (promise_finally (Promise (Inr (5::nat)) []) (assign_mockFetch (Some (1::nat))))
             \<lparr>mockFetch = Bound (Some 2), assigned = [Some 2]\<rparr> =
            (Inr 5, \<lparr>mockFetch = Bound (Some 1), assigned = [Some 2, Some 1]\<rparr>)"
    using mockFetchForTesting_restores_where_declared
      [OF b3, where callback = "\<lambda>s. (Inr (Promised (Promise (Inr (5::nat)) [])), s)"
         and theFetch = 2 and p = "Promise (Inr 5) []"
         and after = "\<lparr>mockFetch = Bound (Some 2), assigned = [Some 2]\<rparr>",
       THEN conjunct2, THEN conjunct2, THEN conjunct1]
    by (simp add: assign_mockFetch_def settle_def)
  have d: "mockFetch (snd (mockFetchForTesting (2::nat) (\<lambda>s. (Inr (Plain (0::nat)), s))
       (assign_mockFetch (Some 1) ?s2))) = Bound (Some 1)"
    using mockFetchForTesting_restores_where_declared
      [OF b2, where theFetch = 1 and inner = "\<lambda>s. (Inr (Plain (0::nat)), s)"
         and innerFetch = 2 and w = 0
         and after_inner = "\<lparr>mockFetch = Bound (Some 2), assigned = [Some 1, Some 2]\<rparr>",
       THEN conjunct2, THEN conjunct2, THEN conjunct2]
    by (simp add: assign_mockFetch_def module_net_original_def)
  from a b c d show ?thesis by simp
qed

text \<open>
  C4 fails on part_000 (as on part_001 and the first document of net.ts). The function is
  there word for word, but the module declares no \<open>mockFetch\<close>: for every replacement and
  every callback the first statement, \<open>const originalMockFetch = mockFetch\<close>, throws a
  \<open>ReferenceError\<close>. The callback is not run, nothing is installed and nothing is
  restored: the state is the one before the call and the log of assignments stays empty.
  The same call in the second document of net.ts installs the replacement, runs the
  callback and restores the slot with one assignment.
\<close>

theorem mockFetchForTesting_throws_where_undeclared:
  "mockFetchForTesting theFetch callback module_undeclared =
     (Inl (ReferenceError ''mockFetch is not defined''), module_undeclared) \<and>
   assigned (snd (mockFetchForTesting theFetch callback module_undeclared)) = [] \<and>
   mockFetchForTesting example_mock (\<lambda>s. (Inr (Plain (mockFetch s)), s)) module_undeclared =
     (Inl (ReferenceError ''mockFetch is not defined''), module_undeclared) \<and>
   mockFetchForTesting example_mock (\<lambda>s. (Inr (Plain (mockFetch s)), s)) module_net_original =
     (Inr (Plain (Bound (Some example_mock))),
      \<lparr>mockFetch = Bound None, assigned = [Some example_mock, None]\<rparr>)"
  by (simp add: mockFetchForTesting_def assign_mockFetch_def module_undeclared_def
      module_net_original_def Let_def)

section \<open>GET and HEAD requests\<close>




section \<open>The \<open>localhost\<close> rewrite\<close>

text \<open>
  C6, as stated, fails: \<open>url.replace('localhost', '127.0.0.1')\<close> has a string
  pattern, so only the first occurrence is rewritten. In
  \<open>http://localhost:3000/localhost\<close> the second occurrence survives, in every variant.
\<close>

theorem localhost_rewritten_once:
  "typo_fixes ''http://localhost:3000/localhost'' = ''http://127.0.0.1:3000/localhost'' \<and>
   force_ipv4 ''http://localhost:3000/localhost'' = ''http://127.0.0.1:3000/localhost'' \<and>
   str_includes (typo_fixes ''http://localhost:3000/localhost'') ''localhost''"
  by (simp add: typo_fixes_def force_ipv4_def)

text \<open>
  Backslashes become slashes in part_000 before \<open>localhost\<close> is looked for. The
  replacement touches no letter of \<open>localhost\<close>, so an occurrence in the URL is one in the
  URL with slashes, and a URL without a backslash is left as it is.
\<close>

lemma str_includes_char: "str_includes s [c] \<longleftrightarrow> c \<in> set s"
proof
  assume "str_includes s [c]"
  then obtain pre post where "s = pre @ [c] @ post" by (auto simp: str_includes_iff)
  then show "c \<in> set s" by simp
next
  assume "c \<in> set s"
  then obtain pre post where "s = pre @ c # post" by (auto dest: split_list)
  then have "s = pre @ [c] @ post" by simp
  then show "str_includes s [c]" unfolding str_includes_iff by blast
qed

lemma replace_backslashes_unchanged:
  "\<not> str_includes url [CHR 0x5C] \<Longrightarrow> replace_backslashes url = url"
  by (auto simp: str_includes_char replace_backslashes_def intro!: map_idI)

lemma typo_fixes_replace_backslashes: "typo_fixes url = force_ipv4 (replace_backslashes url)"
  by (cases "str_includes url [CHR 0x5C]")
     (simp_all add: typo_fixes_force_ipv4 replace_backslashes_unchanged)

lemma replace_backslashes_localhost:
  assumes "str_includes url ''localhost''"
  shows "str_includes (replace_backslashes url) ''localhost''"
proof -
  obtain pre post where "url = pre @ ''localhost'' @ post"
    using assms by (auto simp: str_includes_iff)
  then have "replace_backslashes url =
      replace_backslashes pre @ ''localhost'' @ replace_backslashes post"
    by (simp add: replace_backslashes_def)
  then show ?thesis unfolding str_includes_iff by blast
qed

lemma force_ipv4_isLocal_substring:
  assumes "str_includes url ''localhost''"
  shows "isLocal_substring (force_ipv4 url)"
proof -
  obtain pre post where "str_replace url ''localhost'' ''127.0.0.1'' = pre @ ''127.0.0.1'' @ post"
    using str_replace_first [OF assms] by blast
  then have "force_ipv4 url = pre @ ''127.0.0.1'' @ post"
    using assms by (simp add: force_ipv4_def)
  then have "str_includes (force_ipv4 url) ''127.0.0.1''"
    unfolding str_includes_iff by blast
  then show ?thesis by (simp add: isLocal_substring_def)
qed

text \<open>
  C6, amended. For every URL containing \<open>localhost\<close>, the leftmost occurrence, and only
  that one, is rewritten to \<open>127.0.0.1\<close>: in part_001 and net.ts in the resolved URL, in
  part_000 in the resolved URL after every backslash became a slash (which keeps each
  occurrence, and changes nothing when there is no backslash). The rewritten URL is the one
  handed to \<open>undiciFetch\<close> and the one classified: part_000 parses it for the hostname it
  tests, on which the agent and the \<open>Host\<close> header depend; part_001 and net.ts search it
  for \<open>127.0.0.1\<close>, find the rewrite, and so always choose the direct agent (part_001 also
  the \<open>Host\<close> header). For \<open>http://localhost:3000/x\<close> it is \<open>http://127.0.0.1:3000/x\<close>,
  whose host is \<open>127.0.0.1\<close>.
\<close>

theorem localhost_first_occurrence_rewritten:
  assumes "str_includes url ''localhost''"
  shows "(\<exists>pre post.
            url = pre @ ''localhost'' @ post \<and>
            (\<forall>pre' post'. url = pre' @ ''localhost'' @ post' \<longrightarrow> length pre \<le> length pre') \<and>
            force_ipv4 url = pre @ ''127.0.0.1'' @ post) \<and>
         (\<exists>pre post.
            replace_backslashes url = pre @ ''localhost'' @ post \<and>
            (\<forall>pre' post'. replace_backslashes url = pre' @ ''localhost'' @ post' \<longrightarrow>
                length pre \<le> length pre') \<and>
            typo_fixes url = pre @ ''127.0.0.1'' @ post) \<and>
         (\<not> str_includes url [CHR 0x5C] \<longrightarrow>
            replace_backslashes url = url \<and> typo_fixes url = force_ipv4 url) \<and>
         (resolve_url_000 inp = Some url \<and>
          UndiciFetch u opts \<in> set (fst (fetch_part_000 env inp init)) \<longrightarrow>
            u = typo_fixes url \<and>
            dispatcher opts =
              Val (selectedDispatcher (isLocal_000 (hostname_of env (typo_fixes url)))) \<and>
            headers opts =
              Val (PlainObject (cleanHeaders_000 (isLocal_000 (hostname_of env (typo_fixes url)))
                                  (hostname_of env (typo_fixes url))))) \<and>
         (resolve_url_throwing ''Cannot parse URL'' inp1 = Inr url \<and>
          UndiciFetch u1 opts1 \<in> set (fst (fetch_part_001 env1 inp1 init1)) \<longrightarrow>
            u1 = force_ipv4 url \<and>
            isLocal_substring (force_ipv4 url) \<and>
            dispatcher opts1 = Val (selectedDispatcher (isLocal_substring (force_ipv4 url))) \<and>
            dispatcher opts1 = Val localAgent \<and>
            headers opts1 =
              Val (PlainObject (cleanHeaders_001 (fst (snd (extract_001 inp1 init1)))
                                  (isLocal_substring (force_ipv4 url)))) \<and>
            map_of (cleanHeaders_001 (fst (snd (extract_001 inp1 init1)))
                      (isLocal_substring (force_ipv4 url))) ''Host'' = Some ''127.0.0.1'') \<and>
         (resolve_url_throwing ''Cannot parse URL for undici'' inp2 = Inr url \<and>
          UndiciFetch u2 opts2 \<in> set (fst (fetch_net env2 inp2 init2)) \<longrightarrow>
            u2 = force_ipv4 url \<and>
            isLocal_substring (force_ipv4 url) \<and>
            dispatcher opts2 = Val (selectedDispatcher (isLocal_substring (force_ipv4 url))) \<and>
            dispatcher opts2 = Val localAgent) \<and>
         typo_fixes ''http://localhost:3000/x'' = ''http://127.0.0.1:3000/x'' \<and>
         force_ipv4 ''http://localhost:3000/x'' = ''http://127.0.0.1:3000/x'' \<and>
         example_hostname ''http://127.0.0.1:3000/x'' = Some ''127.0.0.1''"
proof -
  obtain pre post where
    split: "url = pre @ ''localhost'' @ post" and
    rep: "str_replace url ''localhost'' ''127.0.0.1'' = pre @ ''127.0.0.1'' @ post" and
    least: "\<forall>pre' post'. url = pre' @ ''localhost'' @ post' \<longrightarrow> length pre \<le> length pre'"
    using str_replace_first [OF assms] by blast
  have f: "force_ipv4 url = pre @ ''127.0.0.1'' @ post"
    using assms rep by (simp add: force_ipv4_def)
  have first: "\<exists>pre post.
            url = pre @ ''localhost'' @ post \<and>
            (\<forall>pre' post'. url = pre' @ ''localhost'' @ post' \<longrightarrow> length pre \<le> length pre') \<and>
            force_ipv4 url = pre @ ''127.0.0.1'' @ post"
    using split least f by blast
  have inc: "str_includes (replace_backslashes url) ''localhost''"
    using assms by (rule replace_backslashes_localhost)
  obtain bpre bpost where
    bsplit: "replace_backslashes url = bpre @ ''localhost'' @ bpost" and
    brep: "str_replace (replace_backslashes url) ''localhost'' ''127.0.0.1'' =
             bpre @ ''127.0.0.1'' @ bpost" and
    bleast: "\<forall>pre' post'. replace_backslashes url = pre' @ ''localhost'' @ post' \<longrightarrow>
               length bpre \<le> length pre'"
    using str_replace_first [OF inc] by blast
  have t: "typo_fixes url = bpre @ ''127.0.0.1'' @ bpost"
    using inc brep by (simp add: typo_fixes_replace_backslashes force_ipv4_def)
  have first_000: "\<exists>pre post.
            replace_backslashes url = pre @ ''localhost'' @ post \<and>
            (\<forall>pre' post'. replace_backslashes url = pre' @ ''localhost'' @ post' \<longrightarrow>
                length pre \<le> length pre') \<and>
            typo_fixes url = pre @ ''127.0.0.1'' @ post"
    using bsplit bleast t by blast
  have nb: "\<not> str_includes url [CHR 0x5C] \<longrightarrow>
            replace_backslashes url = url \<and> typo_fixes url = force_ipv4 url"
    by (simp add: typo_fixes_replace_backslashes replace_backslashes_unchanged)
  have loc: "isLocal_substring (force_ipv4 url)"
    using assms by (rule force_ipv4_isLocal_substring)
  have p0: "resolve_url_000 inp = Some url \<and>
          UndiciFetch u opts \<in> set (fst (fetch_part_000 env inp init)) \<longrightarrow>
            u = typo_fixes url \<and>
            dispatcher opts =
              Val (selectedDispatcher (isLocal_000 (hostname_of env (typo_fixes url)))) \<and>
            headers opts =
              Val (PlainObject (cleanHeaders_000 (isLocal_000 (hostname_of env (typo_fixes url)))
                                  (hostname_of env (typo_fixes url))))"
  proof
    assume h: "resolve_url_000 inp = Some url \<and>
          UndiciFetch u opts \<in> set (fst (fetch_part_000 env inp init))"
    then have "primary_part_000 env inp init = Inr (u, opts)"
      by (blast intro: fetch_part_000_calls)
    then show "u = typo_fixes url \<and>
       dispatcher opts = Val (selectedDispatcher (isLocal_000 (hostname_of env (typo_fixes url)))) \<and>
       headers opts =
              Val (PlainObject (cleanHeaders_000 (isLocal_000 (hostname_of env (typo_fixes url)))
                                  (hostname_of env (typo_fixes url))))"
      using primary_part_000_Inr [of env inp init u opts] h by auto
  qed
  have p1: "resolve_url_throwing ''Cannot parse URL'' inp1 = Inr url \<and>
          UndiciFetch u1 opts1 \<in> set (fst (fetch_part_001 env1 inp1 init1)) \<longrightarrow>
            u1 = force_ipv4 url \<and>
            isLocal_substring (force_ipv4 url) \<and>
            dispatcher opts1 = Val (selectedDispatcher (isLocal_substring (force_ipv4 url))) \<and>
            dispatcher opts1 = Val localAgent \<and>
            headers opts1 =
              Val (PlainObject (cleanHeaders_001 (fst (snd (extract_001 inp1 init1)))
                                  (isLocal_substring (force_ipv4 url)))) \<and>
            map_of (cleanHeaders_001 (fst (snd (extract_001 inp1 init1)))
                      (isLocal_substring (force_ipv4 url))) ''Host'' = Some ''127.0.0.1''"
  proof
    assume h: "resolve_url_throwing ''Cannot parse URL'' inp1 = Inr url \<and>
          UndiciFetch u1 opts1 \<in> set (fst (fetch_part_001 env1 inp1 init1))"
    then have "primary_part_001 inp1 init1 = Inr (u1, opts1)"
      by (blast intro: fetch_part_001_calls)
    then have eqs: "u1 = force_ipv4 url"
      "dispatcher opts1 = Val (selectedDispatcher (isLocal_substring (force_ipv4 url)))"
      "headers opts1 =
              Val (PlainObject (cleanHeaders_001 (fst (snd (extract_001 inp1 init1)))
                                  (isLocal_substring (force_ipv4 url))))"
      using primary_part_001_Inr [of inp1 init1 u1 opts1] h by auto
    have host: "map_of (cleanHeaders_001 (fst (snd (extract_001 inp1 init1)))
                      (isLocal_substring (force_ipv4 url))) ''Host'' = Some ''127.0.0.1''"
      using loc by (simp add: cleanHeaders_001_def Let_def update_conv')
    show "u1 = force_ipv4 url \<and>
            isLocal_substring (force_ipv4 url) \<and>
            dispatcher opts1 = Val (selectedDispatcher (isLocal_substring (force_ipv4 url))) \<and>
            dispatcher opts1 = Val localAgent \<and>
            headers opts1 =
              Val (PlainObject (cleanHeaders_001 (fst (snd (extract_001 inp1 init1)))
                                  (isLocal_substring (force_ipv4 url)))) \<and>
            map_of (cleanHeaders_001 (fst (snd (extract_001 inp1 init1)))
                      (isLocal_substring (force_ipv4 url))) ''Host'' = Some ''127.0.0.1''"
      using eqs loc host by (simp add: selectedDispatcher_def)
  qed
  have p2: "resolve_url_throwing ''Cannot parse URL for undici'' inp2 = Inr url \<and>
          UndiciFetch u2 opts2 \<in> set (fst (fetch_net env2 inp2 init2)) \<longrightarrow>
            u2 = force_ipv4 url \<and>
            isLocal_substring (force_ipv4 url) \<and>
            dispatcher opts2 = Val (selectedDispatcher (isLocal_substring (force_ipv4 url))) \<and>
            dispatcher opts2 = Val localAgent"
  proof
    assume h: "resolve_url_throwing ''Cannot parse URL for undici'' inp2 = Inr url \<and>
          UndiciFetch u2 opts2 \<in> set (fst (fetch_net env2 inp2 init2))"
    then have "primary_net inp2 init2 = Inr (u2, opts2)"
      by (blast intro: fetch_net_calls)
    then have "u2 = force_ipv4 url \<and>
         dispatcher opts2 = Val (selectedDispatcher (isLocal_substring (force_ipv4 url)))"
      using h by (auto simp: primary_net_def Let_def)
    then show "u2 = force_ipv4 url \<and>
            isLocal_substring (force_ipv4 url) \<and>
            dispatcher opts2 = Val (selectedDispatcher (isLocal_substring (force_ipv4 url))) \<and>
            dispatcher opts2 = Val localAgent"
      using loc by (simp add: selectedDispatcher_def)
  qed
  have e1: "typo_fixes ''http://localhost:3000/x'' = ''http://127.0.0.1:3000/x''"
    by (simp add: typo_fixes_def)
  have e2: "force_ipv4 ''http://localhost:3000/x'' = ''http://127.0.0.1:3000/x''"
    by (simp add: force_ipv4_def)
  have e3: "example_hostname ''http://127.0.0.1:3000/x'' = Some ''127.0.0.1''"
    by (simp add: example_hostname_def)
  from first first_000 nb p0 p1 p2 e1 e2 e3 show ?thesis by blast
qed

theorem localhost_first_occurrence_rewritten_witness:
  "str_includes ''http://localhost:3000/x'' ''localhost'' \<and>
   \<not> str_includes ''http://localhost:3000/x'' [CHR 0x5C] \<and>
   replace_backslashes ''http://localhost:3000/x'' = ''http://localhost:3000/x'' \<and>
   typo_fixes ''http://localhost:3000/x'' = force_ipv4 ''http://localhost:3000/x'' \<and>
   (\<exists>pre post. ''http://localhost:3000/x'' = pre @ ''localhost'' @ post \<and>
      force_ipv4 ''http://localhost:3000/x'' = pre @ ''127.0.0.1'' @ post) \<and>
   resolve_url_000 (IString ''http://localhost:3000/x'') = Some ''http://localhost:3000/x'' \<and>
   UndiciFetch ''http://127.0.0.1:3000/x''
     \<lparr>meth = Val ''GET'',
      headers = Val (PlainObject [(''Content-Type'', ''application/json''),
                                  (''Connection'', ''keep-alive''), (''Host'', ''127.0.0.1'')]),
      body = Missing, signal = Missing, duplex = Missing,
      dispatcher = Val localAgent, extras = []\<rparr>
     \<in> set (fst (fetch_part_000 (example_platform (Inr ''primary'') (Inr ''baseline''))
                  (IString ''http://localhost:3000/x'') None)) \<and>
   resolve_url_throwing ''Cannot parse URL'' (IString ''http://localhost:3000/x'') =
     Inr ''http://localhost:3000/x'' \<and>
   UndiciFetch ''http://127.0.0.1:3000/x''
     \<lparr>meth = Val ''GET'', headers = Val (PlainObject [(''Host'', ''127.0.0.1'')]),
      body = Undefined, signal = Missing, duplex = Missing,
      dispatcher = Val localAgent, extras = []\<rparr>
     \<in> set (fst (fetch_part_001 (example_platform (Inr ''primary'') (Inr ''baseline''))
                  (IString ''http://localhost:3000/x'') None)) \<and>
   resolve_url_throwing ''Cannot parse URL for undici'' (IString ''http://localhost:3000/x'') =
     Inr ''http://localhost:3000/x'' \<and>
   UndiciFetch ''http://127.0.0.1:3000/x'' (empty_options\<lparr>dispatcher := Val localAgent\<rparr>)
     \<in> set (fst (fetch_net (example_platform (Inr ''primary'') (Inr ''baseline''))
                  (IString ''http://localhost:3000/x'') None)) \<and>
   isLocal_substring (force_ipv4 ''http://localhost:3000/x'') \<and>
   typo_fixes ''http://localhost:3000/x'' = ''http://127.0.0.1:3000/x'' \<and>
   force_ipv4 ''http://localhost:3000/x'' = ''http://127.0.0.1:3000/x'' \<and>
   str_includes (''http:'' @ [CHR 0x5C, CHR 0x5C] @ ''localhost:3000'' @ [CHR 0x5C] @ ''x'')
     ''localhost'' \<and>
   str_includes (''http:'' @ [CHR 0x5C, CHR 0x5C] @ ''localhost:3000'' @ [CHR 0x5C] @ ''x'')
     [CHR 0x5C] \<and>
   replace_backslashes (''http:'' @ [CHR 0x5C, CHR 0x5C] @ ''localhost:3000'' @ [CHR 0x5C] @ ''x'') =
     ''http://localhost:3000/x'' \<and>
   (\<exists>pre post. ''http://localhost:3000/x'' = pre @ ''localhost'' @ post \<and>
      typo_fixes (''http:'' @ [CHR 0x5C, CHR 0x5C] @ ''localhost:3000'' @ [CHR 0x5C] @ ''x'') =
        pre @ ''127.0.0.1'' @ post) \<and>
   typo_fixes (''http:'' @ [CHR 0x5C, CHR 0x5C] @ ''localhost:3000'' @ [CHR 0x5C] @ ''x'') =
     ''http://127.0.0.1:3000/x'' \<and>
   UndiciFetch ''http://127.0.0.1:3000/x''
     \<lparr>meth = Val ''GET'',
      headers = Val (PlainObject [(''Content-Type'', ''application/json''),
                                  (''Connection'', ''keep-alive''), (''Host'', ''127.0.0.1'')]),
      body = Missing, signal = Missing, duplex = Missing,
      dispatcher = Val localAgent, extras = []\<rparr>
     \<in> set (fst (fetch_part_000 (example_platform (Inr ''primary'') (Inr ''baseline''))
                  (IString (''http:'' @ [CHR 0x5C, CHR 0x5C] @ ''localhost:3000'' @ [CHR 0x5C] @ ''x''))
                  None))"
proof -
  let ?env = "example_platform (Inr ''primary'') (Inr ''baseline'')"
  let ?url = "''http://localhost:3000/x''"
  let ?burl = "''http:'' @ [CHR 0x5C, CHR 0x5C] @ ''localhost:3000'' @ [CHR 0x5C] @ ''x''"
  let ?u = "''http://127.0.0.1:3000/x''"
  let ?opts = "\<lparr>meth = Val ''GET'',
      headers = Val (PlainObject [(''Content-Type'', ''application/json''),
                                  (''Connection'', ''keep-alive''), (''Host'', ''127.0.0.1'')]),
      body = Missing, signal = Missing, duplex = Missing,
      dispatcher = Val localAgent, extras = []\<rparr>"
  let ?opts1 = "\<lparr>meth = Val ''GET'', headers = Val (PlainObject [(''Host'', ''127.0.0.1'')]),
      body = Undefined, signal = Missing, duplex = Missing,
      dispatcher = Val localAgent, extras = []\<rparr>"
  let ?opts2 = "empty_options\<lparr>dispatcher := Val localAgent\<rparr>"
  have a: "str_includes ?url ''localhost''" by simp
  have nb: "\<not> str_includes ?url [CHR 0x5C]" by simp
  have r0: "resolve_url_000 (IString ?url) = Some ?url" by (simp add: resolve_url_000_def)
  have r1: "resolve_url_throwing ''Cannot parse URL'' (IString ?url) = Inr ?url"
    by (simp add: resolve_url_throwing_def)
  have r2: "resolve_url_throwing ''Cannot parse URL for undici'' (IString ?url) = Inr ?url"
    by (simp add: resolve_url_throwing_def)
  have c: "UndiciFetch ?u ?opts \<in> set (fst (fetch_part_000 ?env (IString ?url) None))"
    by (simp add: part_000_defs string_ops example_values)
  have c1: "UndiciFetch ?u ?opts1 \<in> set (fst (fetch_part_001 ?env (IString ?url) None))"
    by (simp add: part_001_defs string_ops example_values)
  have c2: "UndiciFetch ?u ?opts2 \<in> set (fst (fetch_net ?env (IString ?url) None))"
    by (simp add: net_defs string_ops example_values)
  note fact = localhost_first_occurrence_rewritten
    [OF a, where inp = "IString ?url" and env = ?env and init = None and u = ?u and opts = ?opts
       and ?inp1.0 = "IString ?url" and ?u1.0 = ?u and ?opts1.0 = ?opts1 and ?env1.0 = ?env
       and ?init1.0 = None
       and ?inp2.0 = "IString ?url" and ?u2.0 = ?u and ?opts2.0 = ?opts2 and ?env2.0 = ?env
       and ?init2.0 = None]
  have b: "\<exists>pre post. ?url = pre @ ''localhost'' @ post \<and>
      force_ipv4 ?url = pre @ ''127.0.0.1'' @ post"
    using fact by blast
  have n: "replace_backslashes ?url = ?url \<and> typo_fixes ?url = force_ipv4 ?url"
    using fact nb by blast
  have d: "?u = typo_fixes ?url" using fact r0 c by blast
  have d1: "?u = force_ipv4 ?url \<and> isLocal_substring (force_ipv4 ?url)"
    using fact r1 c1 by blast
  have ba: "str_includes ?burl ''localhost''" by simp
  have bb: "str_includes ?burl [CHR 0x5C]" by simp
  have br: "replace_backslashes ?burl = ?url" by (simp add: replace_backslashes_def)
  have rb: "resolve_url_000 (IString ?burl) = Some ?burl" by (simp add: resolve_url_000_def)
  have cb: "UndiciFetch ?u ?opts \<in> set (fst (fetch_part_000 ?env (IString ?burl) None))"
    by (simp add: part_000_defs string_ops example_values replace_backslashes_def)
  note bfact = localhost_first_occurrence_rewritten
    [OF ba, where inp = "IString ?burl" and env = ?env and init = None and u = ?u and opts = ?opts]
  have "\<exists>pre post. replace_backslashes ?burl = pre @ ''localhost'' @ post \<and>
      (\<forall>pre' post'. replace_backslashes ?burl = pre' @ ''localhost'' @ post' \<longrightarrow>
          length pre \<le> length pre') \<and>
      typo_fixes ?burl = pre @ ''127.0.0.1'' @ post"
    by (rule bfact [THEN conjunct2, THEN conjunct1])
  then have be: "\<exists>pre post. ?url = pre @ ''localhost'' @ post \<and>
      typo_fixes ?burl = pre @ ''127.0.0.1'' @ post"
    unfolding br by blast
  have bd: "typo_fixes ?burl = ?u"
    using bfact [THEN conjunct2, THEN conjunct2, THEN conjunct2, THEN conjunct1, THEN mp,
        OF conjI [OF rb cb], THEN conjunct1]
    by (rule sym)
  from a nb n b r0 c r1 c1 r2 c2 d d1 ba bb br be bd cb show ?thesis by simp
qed

section \<open>Merge precedence\<close>

text \<open>
  What each variant makes of a request-like object \<open>r\<close> that has a \<open>method\<close> key and of
  explicit options \<open>i\<close>, field by field.
\<close>

lemma merge_net:
  assumes "has_key (in_meth r)"
  shows "primary_net (IObject r) (Some i) = Inr (url, opts) \<longrightarrow>
            meth opts = (if has_key (meth i) then meth i else as_field (read (in_meth r))) \<and>
            body opts = (if has_key (body i) then body i else as_field (read (in_body r))) \<and>
            signal opts = (if has_key (signal i) then signal i else as_field (read (in_signal r))) \<and>
            headers opts =
              (case (if has_key (headers i) then headers i else as_field (read (in_headers r))) of
                 Val (HeadersObject es) \<Rightarrow> Val (PlainObject (assign_all es []))
               | other \<Rightarrow> other)"
proof
  assume a: "primary_net (IObject r) (Some i) = Inr (url, opts)"
  let ?m = "merge_options_net (IObject r) (Some i)"
  have o: "opts = (handle_duplex_net (clean_headers_net ?m))
      \<lparr>dispatcher := Val (selectedDispatcher (isLocal_substring url))\<rparr>"
    using a by (auto simp: primary_net_def options_net_def Let_def split: sum.splits)
  have m: "?m = i\<lparr>meth := spread_over (in_meth r) (meth i),
                           headers := spread_over (in_headers r) (headers i),
                           body := spread_over (in_body r) (body i),
                           signal := spread_over (in_signal r) (signal i)\<rparr>"
    using assms by (simp add: merge_options_net_def)
  have d1: "\<And>x. meth (handle_duplex_net x) = meth x" "\<And>x. body (handle_duplex_net x) = body x"
     "\<And>x. signal (handle_duplex_net x) = signal x" "\<And>x. headers (handle_duplex_net x) = headers x"
    by (simp_all add: handle_duplex_net_def Let_def)
  have c1: "\<And>x. meth (clean_headers_net x) = meth x" "\<And>x. body (clean_headers_net x) = body x"
     "\<And>x. signal (clean_headers_net x) = signal x"
    by (simp_all add: clean_headers_net_def split: option.splits headers.splits)
  have c2: "\<And>x. headers (clean_headers_net x) = (case headers x of
                 Val (HeadersObject es) \<Rightarrow> Val (PlainObject (assign_all es []))
               | other \<Rightarrow> other)"
    by (simp add: clean_headers_net_def split: option.splits headers.splits field.splits)
  show "meth opts = (if has_key (meth i) then meth i else as_field (read (in_meth r))) \<and>
            body opts = (if has_key (body i) then body i else as_field (read (in_body r))) \<and>
            signal opts = (if has_key (signal i) then signal i else as_field (read (in_signal r))) \<and>
            headers opts =
              (case (if has_key (headers i) then headers i else as_field (read (in_headers r))) of
                 Val (HeadersObject es) \<Rightarrow> Val (PlainObject (assign_all es []))
               | other \<Rightarrow> other)"
    by (simp add: o d1 c1 c2 m spread_over_def)
qed

lemma merge_part_000:
  assumes "has_key (in_meth r)"
  shows "primary_part_000 env (IObject r) (Some i) = Inr (url_r, opts_r) \<longrightarrow>
            meth opts_r =
              Val (toUpperCase (str_or (read (meth i)) (str_or (read (in_meth r)) ''GET''))) \<and>
            headers opts_r =
              Val (PlainObject
                (cleanHeaders_000 (isLocal_000 (hostname_of env url_r)) (hostname_of env url_r))) \<and>
            signal opts_r = Missing \<and>
            (\<exists>finalBody.
               prepare_body_000
                 (if meth opts_r = Val ''GET'' \<or> meth opts_r = Val ''HEAD'' then None
                  else if truthy (read (body i)) then read (body i) else read (in_body r)) =
                 Inr finalBody \<and>
               body opts_r = (if truthy finalBody then as_field finalBody else Missing)) \<and>
            (\<forall>s. (if truthy (read (body i)) then read (body i) else read (in_body r)) =
                    Some (BStr s) \<longrightarrow>
                 body opts_r =
                   (if meth opts_r = Val ''GET'' \<or> meth opts_r = Val ''HEAD'' \<or> s = []
                    then Missing else Val (BStr s))) \<and>
            ((if truthy (read (body i)) then read (body i) else read (in_body r)) = None \<longrightarrow>
                 body opts_r = Missing)"
  proof
    assume a: "primary_part_000 env (IObject r) (Some i) = Inr (url_r, opts_r)"
    let ?chosen = "if truthy (read (body i)) then read (body i) else read (in_body r)"
    let ?m = "fst (extract_000 (IObject r) (Some i))"
    obtain finalBody where
      prep: "prepare_body_000 (snd (extract_000 (IObject r) (Some i))) = Inr finalBody" and
      o: "opts_r =
        \<lparr>meth = Val (fst (extract_000 (IObject r) (Some i))),
         headers = Val (PlainObject
           (cleanHeaders_000 (isLocal_000 (hostname_of env url_r)) (hostname_of env url_r))),
         body = (if truthy finalBody then as_field finalBody else Missing),
         signal = Missing, duplex = Missing,
         dispatcher = Val (selectedDispatcher (isLocal_000 (hostname_of env url_r))),
         extras = []\<rparr>"
      using primary_part_000_Inr [OF a] by blast
    have m: "?m = toUpperCase (str_or (read (meth i)) (str_or (read (in_meth r)) ''GET''))"
      by (rule extract_000_object(1) [OF assms])
    have b: "snd (extract_000 (IObject r) (Some i)) =
        (if ?m = ''GET'' \<or> ?m = ''HEAD'' then None else ?chosen)"
      by (rule extract_000_object(2) [OF assms])
    have mo: "meth opts_r = Val ?m" using o by simp
    have bo: "body opts_r = (if truthy finalBody then as_field finalBody else Missing)"
      using o by simp
    have str: "\<forall>s. ?chosen = Some (BStr s) \<longrightarrow>
                 body opts_r =
                   (if meth opts_r = Val ''GET'' \<or> meth opts_r = Val ''HEAD'' \<or> s = []
                    then Missing else Val (BStr s))"
    proof (intro allI impI)
      fix s assume c: "?chosen = Some (BStr s)"
      show "body opts_r =
                   (if meth opts_r = Val ''GET'' \<or> meth opts_r = Val ''HEAD'' \<or> s = []
                    then Missing else Val (BStr s))"
      proof (cases "?m = ''GET'' \<or> ?m = ''HEAD''")
        case True
        then have "snd (extract_000 (IObject r) (Some i)) = None" using b by simp
        then have "finalBody = None" using prep by (simp add: prepare_body_000_simps)
        then show ?thesis using True bo mo by auto
      next
        case False
        then have "snd (extract_000 (IObject r) (Some i)) = Some (BStr s)" using b c by simp
        then have "finalBody = Some (BStr s)" using prep by (simp add: prepare_body_000_simps)
        then show ?thesis using False bo mo by auto
      qed
    qed
    have none: "?chosen = None \<longrightarrow> body opts_r = Missing"
    proof
      assume c: "?chosen = None"
      then have "snd (extract_000 (IObject r) (Some i)) = None" using b by simp
      then have "finalBody = None" using prep by (simp add: prepare_body_000_simps)
      then show "body opts_r = Missing" using bo by simp
    qed
    have h: "headers opts_r =
              Val (PlainObject
                (cleanHeaders_000 (isLocal_000 (hostname_of env url_r)) (hostname_of env url_r)))"
      using o by simp
    have sg: "signal opts_r = Missing" using o by simp
    have gen: "\<exists>finalBody.
               prepare_body_000
                 (if meth opts_r = Val ''GET'' \<or> meth opts_r = Val ''HEAD'' then None
                  else ?chosen) = Inr finalBody \<and>
               body opts_r = (if truthy finalBody then as_field finalBody else Missing)"
      using prep b bo mo by auto
    from mo m h sg gen str none
    show "meth opts_r =
              Val (toUpperCase (str_or (read (meth i)) (str_or (read (in_meth r)) ''GET''))) \<and>
            headers opts_r =
              Val (PlainObject
                (cleanHeaders_000 (isLocal_000 (hostname_of env url_r)) (hostname_of env url_r))) \<and>
            signal opts_r = Missing \<and>
            (\<exists>finalBody.
               prepare_body_000
                 (if meth opts_r = Val ''GET'' \<or> meth opts_r = Val ''HEAD'' then None
                  else ?chosen) = Inr finalBody \<and>
               body opts_r = (if truthy finalBody then as_field finalBody else Missing)) \<and>
            (\<forall>s. ?chosen = Some (BStr s) \<longrightarrow>
                 body opts_r =
                   (if meth opts_r = Val ''GET'' \<or> meth opts_r = Val ''HEAD'' \<or> s = []
                    then Missing else Val (BStr s))) \<and>
            (?chosen = None \<longrightarrow> body opts_r = Missing)"
      by simp
  qed

lemma merge_part_001:
  assumes "has_key (in_meth r)"
  shows "primary_part_001 (IObject r) (Some i) = Inr (url_b, opts_b) \<longrightarrow>
            read (meth opts_b) =
              map_option toUpperCase
                (if truthy_str (read (meth i)) then read (meth i) else read (in_meth r)) \<and>
            headers opts_b =
              Val (PlainObject
                (cleanHeaders_001
                   (case read (headers i) of None \<Rightarrow> read (in_headers r) | Some h \<Rightarrow> Some h)
                   (isLocal_substring url_b))) \<and>
            signal opts_b = Missing \<and>
            (\<exists>finalBody.
               buffer_body_001
                 (if truthy (read (body i)) then read (body i) else read (in_body r)) =
                 Inr finalBody \<and>
               body opts_b = as_field finalBody) \<and>
            (\<forall>s. (if truthy (read (body i)) then read (body i) else read (in_body r)) =
                    Some (BStr s) \<longrightarrow> body opts_b = Val (BStr s)) \<and>
            ((if truthy (read (body i)) then read (body i) else read (in_body r)) = None \<longrightarrow>
                 body opts_b = Undefined)"
proof
  assume a: "primary_part_001 (IObject r) (Some i) = Inr (url_b, opts_b)"
  let ?chosen = "if truthy (read (body i)) then read (body i) else read (in_body r)"
  let ?e = "extract_001 (IObject r) (Some i)"
  obtain m finalBody where
    em: "fst ?e = Some m" and
    buf: "buffer_body_001 (snd (snd ?e)) = Inr finalBody" and
    o: "opts_b = \<lparr>meth = Val (toUpperCase m),
                   headers = Val (PlainObject
                     (cleanHeaders_001 (fst (snd ?e)) (isLocal_substring url_b))),
                   body = as_field finalBody,
                   signal = Missing, duplex = Missing,
                   dispatcher = Val (selectedDispatcher (isLocal_substring url_b)),
                   extras = []\<rparr>"
    using primary_part_001_Inr [OF a] by blast
  note e = extract_001_object [OF assms, of i]
  have m: "(if truthy_str (read (meth i)) then read (meth i) else read (in_meth r)) = Some m"
    using em by (simp add: e)
  have b: "buffer_body_001 ?chosen = Inr finalBody" using buf by (simp add: e)
  have s1: "\<forall>s. ?chosen = Some (BStr s) \<longrightarrow> body opts_b = Val (BStr s)"
  proof (intro allI impI)
    fix s assume "?chosen = Some (BStr s)"
    then have "finalBody = Some (BStr s)" using b by (simp add: buffer_body_001_simps)
    then show "body opts_b = Val (BStr s)" using o by simp
  qed
  have s2: "?chosen = None \<longrightarrow> body opts_b = Undefined"
  proof
    assume "?chosen = None"
    then have "finalBody = None" using b by (simp add: buffer_body_001_simps)
    then show "body opts_b = Undefined" using o by simp
  qed
  have mo: "read (meth opts_b) = map_option toUpperCase
                (if truthy_str (read (meth i)) then read (meth i) else read (in_meth r))"
    using o by (simp add: m)
  have h: "headers opts_b =
              Val (PlainObject
                (cleanHeaders_001
                   (case read (headers i) of None \<Rightarrow> read (in_headers r) | Some h \<Rightarrow> Some h)
                   (isLocal_substring url_b)))"
    using o by (simp add: e)
  have sg: "signal opts_b = Missing" using o by simp
  have gen: "\<exists>finalBody. buffer_body_001 ?chosen = Inr finalBody \<and>
               body opts_b = as_field finalBody"
    using b o by simp
  from mo h sg gen s1 s2 show "read (meth opts_b) =
              map_option toUpperCase
                (if truthy_str (read (meth i)) then read (meth i) else read (in_meth r)) \<and>
            headers opts_b =
              Val (PlainObject
                (cleanHeaders_001
                   (case read (headers i) of None \<Rightarrow> read (in_headers r) | Some h \<Rightarrow> Some h)
                   (isLocal_substring url_b))) \<and>
            signal opts_b = Missing \<and>
            (\<exists>finalBody. buffer_body_001 ?chosen = Inr finalBody \<and>
               body opts_b = as_field finalBody) \<and>
            (\<forall>s. ?chosen = Some (BStr s) \<longrightarrow> body opts_b = Val (BStr s)) \<and>
            (?chosen = None \<longrightarrow> body opts_b = Undefined)"
    by simp
qed

text \<open>
  C7, as stated, fails on the range-based variant (part_000): the headers and the signal
  are taken from neither descriptor. The request-like object has a \<open>method\<close> key, an
  \<open>accept\<close> header and a signal; the explicit options have \<open>Authorization\<close> and a signal
  of their own. The request handed to \<open>undiciFetch\<close> has the two fixed headers and no
  signal.
\<close>

theorem part_000_drops_headers_and_signal:
  "fetch_part_000 (example_platform (Inr ''primary'') (Inr ''baseline''))
       (IObject example_request) (Some caller_init) =
     ([UndiciFetch ''http://api.example.com/v1''
         \<lparr>meth = Val ''POST'',
          headers = Val (PlainObject [(''Content-Type'', ''application/json''),
                                      (''Connection'', ''keep-alive'')]),
          body = Val (BStr ''hello''), signal = Missing, duplex = Missing,
          dispatcher = Val proxyAgent, extras = []\<rparr>],
      Inr ''primary'') \<and>
   has_key (in_meth example_request) \<and>
   headers caller_init = Val (PlainObject [(''Authorization'', ''Bearer token'')]) \<and>
   signal caller_init = Val 1 \<and>
   in_headers example_request = Val (HeadersObject [(''accept'', ''text/plain'')]) \<and>
   in_signal example_request = Val 2"
  by (simp add: part_000_defs string_ops example_values)

text \<open>
  C7, amended. For a request-like object \<open>r\<close> with a \<open>method\<close> key and explicit options
  \<open>i\<close>, the request handed to \<open>undiciFetch\<close> is merged as follows.
  \<^item> Spread-merge variant (net.ts): each of method, headers, body and signal is the
    options' when the options own that key (even with the value \<open>undefined\<close>), otherwise
    the value read from the request-like object; a \<open>Headers\<close> instance is flattened to a
    plain object; no default is filled in.
  \<^item> Range-based variant (part_000): only method and body are merged, by truthiness: a
    truthy explicit value wins, then the request-like object's, then \<open>GET\<close> and no body;
    the method is upper-cased; the chosen body, of whatever kind, is dropped when the method
    is GET or HEAD and otherwise goes through the body preparation, whose truthy result is
    the body sent (a non-empty string as it is); headers and signal come from neither
    descriptor.
  \<^item> Buffering variant (part_001): method, headers and body are merged by truthiness,
    with no default method; the chosen body, of whatever kind, goes through the buffering,
    whose result is the body sent (a string as it is); the signal is not forwarded.
\<close>

theorem merge_precedence_by_variant:
  assumes "has_key (in_meth r)"
  shows "(primary_net (IObject r) (Some i) = Inr (url, opts) \<longrightarrow>
            meth opts = (if has_key (meth i) then meth i else as_field (read (in_meth r))) \<and>
            body opts = (if has_key (body i) then body i else as_field (read (in_body r))) \<and>
            signal opts = (if has_key (signal i) then signal i else as_field (read (in_signal r))) \<and>
            headers opts =
              (case (if has_key (headers i) then headers i else as_field (read (in_headers r))) of
                 Val (HeadersObject es) \<Rightarrow> Val (PlainObject (assign_all es []))
               | other \<Rightarrow> other)) \<and>
         (primary_part_000 env (IObject r) (Some i) = Inr (url_r, opts_r) \<longrightarrow>
            meth opts_r =
              Val (toUpperCase (str_or (read (meth i)) (str_or (read (in_meth r)) ''GET''))) \<and>
            headers opts_r =
              Val (PlainObject
                (cleanHeaders_000 (isLocal_000 (hostname_of env url_r)) (hostname_of env url_r))) \<and>
            signal opts_r = Missing \<and>
            (\<exists>finalBody.
               prepare_body_000
                 (if meth opts_r = Val ''GET'' \<or> meth opts_r = Val ''HEAD'' then None
                  else if truthy (read (body i)) then read (body i) else read (in_body r)) =
                 Inr finalBody \<and>
               body opts_r = (if truthy finalBody then as_field finalBody else Missing)) \<and>
            (\<forall>s. (if truthy (read (body i)) then read (body i) else read (in_body r)) =
                    Some (BStr s) \<longrightarrow>
                 body opts_r =
                   (if meth opts_r = Val ''GET'' \<or> meth opts_r = Val ''HEAD'' \<or> s = []
                    then Missing else Val (BStr s))) \<and>
            ((if truthy (read (body i)) then read (body i) else read (in_body r)) = None \<longrightarrow>
                 body opts_r = Missing)) \<and>
         (primary_part_001 (IObject r) (Some i) = Inr (url_b, opts_b) \<longrightarrow>
            read (meth opts_b) =
              map_option toUpperCase
                (if truthy_str (read (meth i)) then read (meth i) else read (in_meth r)) \<and>
            headers opts_b =
              Val (PlainObject
                (cleanHeaders_001
                   (case read (headers i) of None \<Rightarrow> read (in_headers r) | Some h \<Rightarrow> Some h)
                   (isLocal_substring url_b))) \<and>
            signal opts_b = Missing \<and>
            (\<exists>finalBody.
               buffer_body_001
                 (if truthy (read (body i)) then read (body i) else read (in_body r)) =
                 Inr finalBody \<and>
               body opts_b = as_field finalBody) \<and>
            (\<forall>s. (if truthy (read (body i)) then read (body i) else read (in_body r)) =
                    Some (BStr s) \<longrightarrow> body opts_b = Val (BStr s)) \<and>
            ((if truthy (read (body i)) then read (body i) else read (in_body r)) = None \<longrightarrow>
                 body opts_b = Undefined))"
  using merge_net [OF assms] merge_part_000 [OF assms] merge_part_001 [OF assms] by blast

theorem merge_precedence_by_variant_witness:
  "has_key (in_meth example_request) \<and>
   primary_net (IObject example_request) (Some caller_init) =
     Inr (''http://api.example.com/v1'',
          \<lparr>meth = Val ''post'',
           headers = Val (PlainObject [(''Authorization'', ''Bearer token'')]),
           body = Val (BStr ''hello''), signal = Val 1, duplex = Missing,
           dispatcher = Val proxyAgent, extras = []\<rparr>) \<and>
   primary_part_000 (example_platform (Inr ''primary'') (Inr ''baseline''))
       (IObject example_request) (Some caller_init) =
     Inr (''http://api.example.com/v1'',
          \<lparr>meth = Val ''POST'',
           headers = Val (PlainObject [(''Content-Type'', ''application/json''),
                                       (''Connection'', ''keep-alive'')]),
           body = Val (BStr ''hello''), signal = Missing, duplex = Missing,
           dispatcher = Val proxyAgent, extras = []\<rparr>) \<and>
   primary_part_001 (IObject example_request) (Some caller_init) =
     Inr (''http://api.example.com/v1'',
          \<lparr>meth = Val ''POST'',
           headers = Val (PlainObject [(''Authorization'', ''Bearer token'')]),
           body = Val (BStr ''hello''), signal = Missing, duplex = Missing,
           dispatcher = Val proxyAgent, extras = []\<rparr>) \<and>
   toUpperCase (str_or (read (meth caller_init)) (str_or (read (in_meth example_request)) ''GET'')) =
     ''POST'' \<and>
   primary_net (IObject (example_request\<lparr>in_body := Missing\<rparr>)) (Some empty_options) =
     Inr (''http://api.example.com/v1'',
          \<lparr>meth = Val ''PUT'', headers = Val (PlainObject [(''accept'', ''text/plain'')]),
           body = Undefined, signal = Val 2, duplex = Missing,
           dispatcher = Val proxyAgent, extras = []\<rparr>) \<and>
   primary_part_000 (example_platform (Inr ''primary'') (Inr ''baseline''))
       (IObject (example_request\<lparr>in_body := Missing\<rparr>)) (Some empty_options) =
     Inr (''http://api.example.com/v1'',
          \<lparr>meth = Val ''PUT'',
           headers = Val (PlainObject [(''Content-Type'', ''application/json''),
                                       (''Connection'', ''keep-alive'')]),
           body = Missing, signal = Missing, duplex = Missing,
           dispatcher = Val proxyAgent, extras = []\<rparr>) \<and>
   primary_part_001 (IObject (example_request\<lparr>in_body := Missing\<rparr>)) (Some empty_options) =
     Inr (''http://api.example.com/v1'',
          \<lparr>meth = Val ''PUT'', headers = Val (PlainObject [(''accept'', ''text/plain'')]),
           body = Undefined, signal = Missing, duplex = Missing,
           dispatcher = Val proxyAgent, extras = []\<rparr>) \<and>
   toUpperCase (str_or (read (meth empty_options))
     (str_or (read (in_meth (example_request\<lparr>in_body := Missing\<rparr>))) ''GET'')) = ''PUT'' \<and>
   in_body example_request = Val (BStr ''from request'') \<and>
   primary_net (IObject example_request) (Some (post_init (BObj object_a1))) =
     Inr (''http://api.example.com/v1'',
          \<lparr>meth = Val ''POST'', headers = Val (PlainObject [(''accept'', ''text/plain'')]),
           body = Val (BObj object_a1), signal = Val 2, duplex = Val ''half'',
           dispatcher = Val proxyAgent, extras = []\<rparr>) \<and>
   primary_part_000 (example_platform (Inr ''primary'') (Inr ''baseline''))
       (IObject example_request) (Some (post_init (BObj object_a1))) =
     Inr (''http://api.example.com/v1'',
          \<lparr>meth = Val ''POST'',
           headers = Val (PlainObject [(''Content-Type'', ''application/json''),
                                       (''Connection'', ''keep-alive'')]),
           body = Val (BStr json_a1), signal = Missing, duplex = Missing,
           dispatcher = Val proxyAgent, extras = []\<rparr>) \<and>
   primary_part_001 (IObject example_request) (Some (post_init (BObj object_a1))) =
     Inr (''http://api.example.com/v1'',
          \<lparr>meth = Val ''POST'', headers = Val (PlainObject [(''accept'', ''text/plain'')]),
           body = Val (BStr ''[object Object]''), signal = Missing, duplex = Missing,
           dispatcher = Val proxyAgent, extras = []\<rparr>) \<and>
   prepare_body_000 (Some (BObj object_a1)) = Inr (Some (BStr json_a1)) \<and>
   buffer_body_001 (Some (BObj object_a1)) = Inr (Some (BStr ''[object Object]''))"
proof -
  let ?env = "example_platform (Inr ''primary'') (Inr ''baseline'')"
  let ?n = "\<lparr>meth = Val ''post'',
           headers = Val (PlainObject [(''Authorization'', ''Bearer token'')]),
           body = Val (BStr ''hello''), signal = Val 1, duplex = Missing,
           dispatcher = Val proxyAgent, extras = []\<rparr>"
  let ?r = "\<lparr>meth = Val ''POST'',
           headers = Val (PlainObject [(''Content-Type'', ''application/json''),
                                       (''Connection'', ''keep-alive'')]),
           body = Val (BStr ''hello''), signal = Missing, duplex = Missing,
           dispatcher = Val proxyAgent, extras = []\<rparr>"
  let ?b = "\<lparr>meth = Val ''POST'',
           headers = Val (PlainObject [(''Authorization'', ''Bearer token'')]),
           body = Val (BStr ''hello''), signal = Missing, duplex = Missing,
           dispatcher = Val proxyAgent, extras = []\<rparr>"
  have k: "has_key (in_meth example_request)" by (simp add: example_values)
  have n: "primary_net (IObject example_request) (Some caller_init) =
      Inr (''http://api.example.com/v1'', ?n)"
    by (simp add: net_defs string_ops example_values)
  have r: "primary_part_000 ?env (IObject example_request) (Some caller_init) =
      Inr (''http://api.example.com/v1'', ?r)"
    by (simp add: part_000_defs string_ops example_values)
  have b: "primary_part_001 (IObject example_request) (Some caller_init) =
      Inr (''http://api.example.com/v1'', ?b)"
    by (simp add: part_001_defs string_ops example_values)
  note fact = merge_precedence_by_variant
    [OF k, where i = caller_init and env = ?env
       and url = "''http://api.example.com/v1''" and opts = ?n
       and url_r = "''http://api.example.com/v1''" and opts_r = ?r
       and url_b = "''http://api.example.com/v1''" and opts_b = ?b]
  have m: "meth ?r =
      Val (toUpperCase (str_or (read (meth caller_init))
                          (str_or (read (in_meth example_request)) ''GET'')))"
    using fact r by blast
  let ?q = "example_request\<lparr>in_body := Missing\<rparr>"
  let ?n2 = "\<lparr>meth = Val ''PUT'', headers = Val (PlainObject [(''accept'', ''text/plain'')]),
           body = Undefined, signal = Val 2, duplex = Missing,
           dispatcher = Val proxyAgent, extras = []\<rparr>"
  let ?r2 = "\<lparr>meth = Val ''PUT'',
           headers = Val (PlainObject [(''Content-Type'', ''application/json''),
                                       (''Connection'', ''keep-alive'')]),
           body = Missing, signal = Missing, duplex = Missing,
           dispatcher = Val proxyAgent, extras = []\<rparr>"
  let ?b2 = "\<lparr>meth = Val ''PUT'', headers = Val (PlainObject [(''accept'', ''text/plain'')]),
           body = Undefined, signal = Missing, duplex = Missing,
           dispatcher = Val proxyAgent, extras = []\<rparr>"
  have k2: "has_key (in_meth ?q)" by (simp add: example_values)
  have n2: "primary_net (IObject ?q) (Some empty_options) =
      Inr (''http://api.example.com/v1'', ?n2)"
    by (simp add: net_defs string_ops example_values)
  have r2: "primary_part_000 ?env (IObject ?q) (Some empty_options) =
      Inr (''http://api.example.com/v1'', ?r2)"
    by (simp add: part_000_defs string_ops example_values)
  have b2: "primary_part_001 (IObject ?q) (Some empty_options) =
      Inr (''http://api.example.com/v1'', ?b2)"
    by (simp add: part_001_defs string_ops example_values)
  note fact2 = merge_precedence_by_variant
    [OF k2, where i = empty_options and env = ?env
       and url = "''http://api.example.com/v1''" and opts = ?n2
       and url_r = "''http://api.example.com/v1''" and opts_r = ?r2
       and url_b = "''http://api.example.com/v1''" and opts_b = ?b2]
  have m2: "meth ?r2 =
      Val (toUpperCase (str_or (read (meth empty_options)) (str_or (read (in_meth ?q)) ''GET'')))"
    using fact2 r2 by blast
  let ?i3 = "post_init (BObj object_a1)"
  let ?n3 = "\<lparr>meth = Val ''POST'', headers = Val (PlainObject [(''accept'', ''text/plain'')]),
           body = Val (BObj object_a1), signal = Val 2, duplex = Val ''half'',
           dispatcher = Val proxyAgent, extras = []\<rparr>"
  let ?r3 = "\<lparr>meth = Val ''POST'',
           headers = Val (PlainObject [(''Content-Type'', ''application/json''),
                                       (''Connection'', ''keep-alive'')]),
           body = Val (BStr json_a1), signal = Missing, duplex = Missing,
           dispatcher = Val proxyAgent, extras = []\<rparr>"
  let ?b3 = "\<lparr>meth = Val ''POST'', headers = Val (PlainObject [(''accept'', ''text/plain'')]),
           body = Val (BStr ''[object Object]''), signal = Missing, duplex = Missing,
           dispatcher = Val proxyAgent, extras = []\<rparr>"
  have q3: "in_body example_request = Val (BStr ''from request'')" by (simp add: example_values)
  have n3: "primary_net (IObject example_request) (Some ?i3) =
      Inr (''http://api.example.com/v1'', ?n3)"
    by (simp add: net_defs string_ops example_values)
  have r3: "primary_part_000 ?env (IObject example_request) (Some ?i3) =
      Inr (''http://api.example.com/v1'', ?r3)"
    by (simp add: part_000_defs string_ops example_values)
  have b3: "primary_part_001 (IObject example_request) (Some ?i3) =
      Inr (''http://api.example.com/v1'', ?b3)"
    by (simp add: part_001_defs string_ops example_values)
  note fact3 = merge_precedence_by_variant
    [OF k, where i = ?i3 and env = ?env
       and url = "''http://api.example.com/v1''" and opts = ?n3
       and url_r = "''http://api.example.com/v1''" and opts_r = ?r3
       and url_b = "''http://api.example.com/v1''" and opts_b = ?b3]
  have c3: "read (body ?i3) = Some (BObj object_a1)" "truthy (Some (BObj object_a1))"
    by (simp_all add: example_values)
  have "\<exists>finalBody.
               prepare_body_000
                 (if meth ?r3 = Val ''GET'' \<or> meth ?r3 = Val ''HEAD'' then None
                  else if truthy (read (body ?i3)) then read (body ?i3)
                       else read (in_body example_request)) = Inr finalBody \<and>
               body ?r3 = (if truthy finalBody then as_field finalBody else Missing)"
    using fact3 [THEN conjunct2, THEN conjunct1, THEN mp, OF r3] by blast
  then have p3: "prepare_body_000 (Some (BObj object_a1)) = Inr (Some (BStr json_a1))"
  proof (elim exE conjE)
    fix finalBody
    assume e: "prepare_body_000
                 (if meth ?r3 = Val ''GET'' \<or> meth ?r3 = Val ''HEAD'' then None
                  else if truthy (read (body ?i3)) then read (body ?i3)
                       else read (in_body example_request)) = Inr finalBody"
       and f: "body ?r3 = (if truthy finalBody then as_field finalBody else Missing)"
    from f have "finalBody = Some (BStr json_a1)"
      by (cases finalBody) (simp_all split: if_splits)
    with e show ?thesis by (simp add: c3)
  qed
  have "\<exists>finalBody.
               buffer_body_001
                 (if truthy (read (body ?i3)) then read (body ?i3)
                  else read (in_body example_request)) = Inr finalBody \<and>
               body ?b3 = as_field finalBody"
    using fact3 [THEN conjunct2, THEN conjunct2, THEN mp, OF b3] by blast
  then have u3: "buffer_body_001 (Some (BObj object_a1)) = Inr (Some (BStr ''[object Object]''))"
  proof (elim exE conjE)
    fix finalBody
    assume e: "buffer_body_001
                 (if truthy (read (body ?i3)) then read (body ?i3)
                  else read (in_body example_request)) = Inr finalBody"
       and f: "body ?b3 = as_field finalBody"
    from f have "finalBody = Some (BStr ''[object Object]'')"
      by (cases finalBody) simp_all
    with e show ?thesis by (simp add: c3)
  qed
  from k n r b m n2 r2 b2 m2 q3 n3 r3 b3 p3 u3 show ?thesis by simp
qed

section \<open>Object bodies\<close>

text \<open>
  The range-based variant (part_000) serialises an object body: for a string input,
  explicit options whose body is an object without a \<open>text\<close> function, and a merged method
  other than GET and HEAD, the request handed to \<open>undiciFetch\<close> carries
  \<open>JSON.stringify(body)\<close> whenever that returns a non-empty text.
\<close>

lemma part_000_serialises_object:
  assumes "read (body i) = Some (BObj ob)"
    and "text_fn ob = None"
    and "JSON_stringify ob = Inr (Some j)"
    and "j \<noteq> []"
    and "toUpperCase (str_or (read (meth i)) ''GET'') = ''POST''"
  shows "\<exists>opts. primary_part_000 env (IString u) (Some i) = Inr (typo_fixes u, opts) \<and>
           meth opts = Val ''POST'' \<and> body opts = Val (BStr j)"
proof -
  have m: "fst (extract_000 (IString u) (Some i)) = ''POST''"
    using assms(5) by (simp add: extract_000_string)
  have b: "snd (extract_000 (IString u) (Some i)) = Some (BObj ob)"
    using assms(1) m by (simp add: extract_000_string(2))
  have e: "extract_000 (IString u) (Some i) = (''POST'', Some (BObj ob))"
    using m b by (simp add: prod_eq_iff)
  have p: "prepare_body_000 (Some (BObj ob)) = Inr (Some (BStr j))"
    using assms(2,3) by (simp add: prepare_body_000_simps)
  show ?thesis
    using assms(4) by (simp add: primary_part_000_def resolve_url_000_def Let_def e p)
qed

text \<open>
  C8 fails on the buffering variant (part_001). There every object body that is no
  \<open>Buffer\<close> first goes through \<open>new Response(rawBody).text()\<close>, which coerces a plain
  object with \<open>String\<close> and succeeds, so \<open>JSON.stringify\<close> in the \<open>catch\<close> is never
  reached: for the body \<open>{a: 1}\<close> and method POST the request carries
  \<open>[object Object]\<close>, not \<open>{"a":1}\<close>. On the same call part_000 sends the JSON text.
\<close>

theorem part_001_object_body_not_serialised:
  "primary_part_001 (IString ''http://api.example.com/v1'') (Some (post_init (BObj object_a1))) =
     Inr (''http://api.example.com/v1'',
          \<lparr>meth = Val ''POST'', headers = Val (PlainObject []),
           body = Val (BStr ''[object Object]''), signal = Missing, duplex = Missing,
           dispatcher = Val proxyAgent, extras = []\<rparr>) \<and>
   JSON_stringify object_a1 = Inr (Some json_a1) \<and>
   json_a1 \<noteq> ''[object Object]'' \<and>
   primary_part_000 (example_platform (Inr ''primary'') (Inr ''baseline''))
       (IString ''http://api.example.com/v1'') (Some (post_init (BObj object_a1))) =
     Inr (''http://api.example.com/v1'',
          \<lparr>meth = Val ''POST'',
           headers = Val (PlainObject [(''Content-Type'', ''application/json''),
                                       (''Connection'', ''keep-alive'')]),
           body = Val (BStr json_a1), signal = Missing, duplex = Missing,
           dispatcher = Val proxyAgent, extras = []\<rparr>)"
  by (simp add: part_001_defs part_000_defs string_ops example_values)

section \<open>Bodies that cannot be serialised\<close>




section \<open>Headers of the range-based variant\<close>

text \<open>
  C10. In the range-based variant (part_000) no header of the caller reaches the low-level
  client: whatever the input and the options, the header object of every request handed
  to \<open>undiciFetch\<close> is exactly \<open>Content-Type: application/json\<close> and
  \<open>Connection: keep-alive\<close>, followed by \<open>Host\<close> with the resolved hostname exactly when
  that hostname classifies as local. An \<open>Authorization\<close> header is therefore never among
  them.
\<close>

theorem part_000_headers_are_fixed:
  assumes "UndiciFetch url fetchOptions \<in> set (fst (fetch_part_000 env inp init))"
  shows "headers fetchOptions =
           Val (PlainObject
             ([(''Content-Type'', ''application/json''), (''Connection'', ''keep-alive'')] @
              (if isLocal_000 (hostname_of env url) then [(''Host'', hostname_of env url)]
               else [])))"
proof -
  have "primary_part_000 env inp init = Inr (url, fetchOptions)"
    using assms by (rule fetch_part_000_calls)
  then obtain url0 finalBody where
    "fetchOptions =
       \<lparr>meth = Val (fst (extract_000 inp init)),
        headers = Val (PlainObject
          (cleanHeaders_000 (isLocal_000 (hostname_of env url)) (hostname_of env url))),
        body = (if truthy finalBody then as_field finalBody else Missing),
        signal = Missing, duplex = Missing,
        dispatcher = Val (selectedDispatcher (isLocal_000 (hostname_of env url))),
        extras = []\<rparr>"
    using primary_part_000_Inr by blast
  then show ?thesis by (simp add: cleanHeaders_000_def)
qed

theorem part_000_headers_are_fixed_witness:
  "UndiciFetch ''http://127.0.0.1:3000/x''
     \<lparr>meth = Val ''POST'',
      headers = Val (PlainObject [(''Content-Type'', ''application/json''),
                                  (''Connection'', ''keep-alive''), (''Host'', ''127.0.0.1'')]),
      body = Val (BStr ''hello''), signal = Missing, duplex = Missing,
      dispatcher = Val localAgent, extras = []\<rparr>
     \<in> set (fst (fetch_part_000 (example_platform (Inr ''primary'') (Inr ''baseline''))
                  (IString ''http://localhost:3000/x'') (Some caller_init))) \<and>
   UndiciFetch ''http://api.example.com/v1''
     \<lparr>meth = Val ''POST'',
      headers = Val (PlainObject [(''Content-Type'', ''application/json''),
                                  (''Connection'', ''keep-alive'')]),
      body = Val (BStr ''hello''), signal = Missing, duplex = Missing,
      dispatcher = Val proxyAgent, extras = []\<rparr>
     \<in> set (fst (fetch_part_000 (example_platform (Inr ''primary'') (Inr ''baseline''))
                  (IString ''http://api.example.com/v1'') (Some caller_init)))"
proof -
  let ?env = "example_platform (Inr ''primary'') (Inr ''baseline'')"
  let ?local = "\<lparr>meth = Val ''POST'',
      headers = Val (PlainObject [(''Content-Type'', ''application/json''),
                                  (''Connection'', ''keep-alive''), (''Host'', ''127.0.0.1'')]),
      body = Val (BStr ''hello''), signal = Missing, duplex = Missing,
      dispatcher = Val localAgent, extras = []\<rparr>"
  let ?remote = "\<lparr>meth = Val ''POST'',
      headers = Val (PlainObject [(''Content-Type'', ''application/json''),
                                  (''Connection'', ''keep-alive'')]),
      body = Val (BStr ''hello''), signal = Missing, duplex = Missing,
      dispatcher = Val proxyAgent, extras = []\<rparr>"
  have a: "UndiciFetch ''http://127.0.0.1:3000/x'' ?local
      \<in> set (fst (fetch_part_000 ?env (IString ''http://localhost:3000/x'') (Some caller_init)))"
    by (simp add: part_000_defs string_ops example_values)
  have b: "UndiciFetch ''http://api.example.com/v1'' ?remote
      \<in> set (fst (fetch_part_000 ?env (IString ''http://api.example.com/v1'') (Some caller_init)))"
    by (simp add: part_000_defs string_ops example_values)
  have "headers ?local =
      Val (PlainObject
        ([(''Content-Type'', ''application/json''), (''Connection'', ''keep-alive'')] @
         (if isLocal_000 (hostname_of ?env ''http://127.0.0.1:3000/x'')
          then [(''Host'', hostname_of ?env ''http://127.0.0.1:3000/x'')] else [])))"
    by (rule part_000_headers_are_fixed [OF a])
  moreover have "headers ?remote =
      Val (PlainObject
        ([(''Content-Type'', ''application/json''), (''Connection'', ''keep-alive'')] @
         (if isLocal_000 (hostname_of ?env ''http://api.example.com/v1'')
          then [(''Host'', hostname_of ?env ''http://api.example.com/v1'')] else [])))"
    by (rule part_000_headers_are_fixed [OF b])
  ultimately show ?thesis using a b by simp
qed

end
